theory Spec2Isabelle
  imports Complex_Main "HOL-Library.Sublist"
begin

section \<open>Python values\<close>

text \<open>
  The values that \<^verbatim>\<open>response.json()\<close>, \<^verbatim>\<open>request.get_json()\<close> and
  \<^verbatim>\<open>json.load\<close> return, and that the code builds as payloads and responses.
  A dict is an association list in insertion order; a string is a list of characters,
  one per code point. \<open>PyNone\<close> is both JSON's null and Python's \<^verbatim>\<open>None\<close>.
\<close>

datatype pyval =
    PyNone
  | PyBool bool
  | PyInt int
  | PyFloat real
  | PyStr string
  | PyList "pyval list"
  | PyDict "(string \<times> pyval) list"

text \<open>The exceptions the modelled code can meet. Every one of them derives from
  \<^verbatim>\<open>Exception\<close>.\<close>

datatype py_exc =
    KeyError
  | IndexError
  | TypeError
  | AttributeError
  | JSONDecodeError
  | BadRequest
  | ValueError
  | OtherException

text \<open>Truth value testing: \<^verbatim>\<open>if v:\<close>.\<close>

fun truthy :: "pyval \<Rightarrow> bool" where
  "truthy PyNone = False"
| "truthy (PyBool b) = b"
| "truthy (PyInt i) = (i \<noteq> 0)"
| "truthy (PyFloat r) = (r \<noteq> 0)"
| "truthy (PyStr s) = (s \<noteq> [])"
| "truthy (PyList xs) = (xs \<noteq> [])"
| "truthy (PyDict kvs) = (kvs \<noteq> [])"

text \<open>\<^verbatim>\<open>d.get(k, default)\<close> on a dict.\<close>

definition dict_get :: "(string \<times> pyval) list \<Rightarrow> string \<Rightarrow> pyval \<Rightarrow> pyval" where
  "dict_get kvs k dflt = (case map_of kvs k of None \<Rightarrow> dflt | Some v \<Rightarrow> v)"

text \<open>\<^verbatim>\<open>v.get(k, default)\<close> on any value: only a dict has the method.\<close>

fun py_get :: "pyval \<Rightarrow> string \<Rightarrow> pyval \<Rightarrow> py_exc + pyval" where
  "py_get (PyDict kvs) k dflt = Inr (dict_get kvs k dflt)"
| "py_get _ k dflt = Inl AttributeError"

text \<open>\<^verbatim>\<open>v[k]\<close> with a string key.\<close>

fun py_getitem :: "pyval \<Rightarrow> string \<Rightarrow> py_exc + pyval" where
  "py_getitem (PyDict kvs) k = (case map_of kvs k of None \<Rightarrow> Inl KeyError | Some v \<Rightarrow> Inr v)"
| "py_getitem _ k = Inl TypeError"

text \<open>\<^verbatim>\<open>v[0]\<close>. The keys of a dict that came from JSON are strings, so the key
  \<^verbatim>\<open>0\<close> is never present.\<close>

fun py_first :: "pyval \<Rightarrow> py_exc + pyval" where
  "py_first (PyList xs) = (case xs of [] \<Rightarrow> Inl IndexError | x # _ \<Rightarrow> Inr x)"
| "py_first (PyStr s) = (case s of [] \<Rightarrow> Inl IndexError | c # _ \<Rightarrow> Inr (PyStr [c]))"
| "py_first (PyDict kvs) = Inl KeyError"
| "py_first _ = Inl TypeError"

text \<open>\<^verbatim>\<open>v[-1]\<close>\<close>

fun py_last :: "pyval \<Rightarrow> py_exc + pyval" where
  "py_last (PyList xs) = (if xs = [] then Inl IndexError else Inr (last xs))"
| "py_last (PyStr s) = (if s = [] then Inl IndexError else Inr (PyStr [last s]))"
| "py_last (PyDict kvs) = Inl KeyError"
| "py_last _ = Inl TypeError"

text \<open>\<^verbatim>\<open>len(v)\<close>\<close>

fun py_len :: "pyval \<Rightarrow> py_exc + nat" where
  "py_len (PyStr s) = Inr (length s)"
| "py_len (PyList xs) = Inr (length xs)"
| "py_len (PyDict kvs) = Inr (length kvs)"
| "py_len _ = Inl TypeError"

text \<open>Whether \<^verbatim>\<open>v[:n]\<close> is defined: strings and lists can be sliced, a slice of
  anything else raises.\<close>

fun sliceable :: "pyval \<Rightarrow> bool" where
  "sliceable (PyStr s) = True"
| "sliceable (PyList xs) = True"
| "sliceable _ = False"

section \<open>The outside world\<close>

text \<open>
  Everything the code reaches outside the process: the clock, the backend behind
  \<^verbatim>\<open>requests\<close>, the camera. What the world will answer is an oracle (the answers
  still to come, the next one at index 0); what the code did to it is the trace,
  oldest event first.
\<close>

datatype reply =
    Response int "pyval option"
  | ConnectionError
  | Timeout
  | RequestFailed

text \<open>\<open>Response status body\<close>: the backend answered; \<open>body\<close> is \<open>None\<close> when
  \<^verbatim>\<open>response.json()\<close> raises. \<open>RequestFailed\<close> is any other exception of the call.\<close>

datatype capture =
    OpenRaises
  | ReadRaises
  | ReadFails
  | EncodeRaises
  | Frame string

text \<open>\<open>Frame b64\<close>: \<^verbatim>\<open>cap.read()\<close> returned a frame and \<open>b64\<close> is the base64 text of
  its JPEG encoding.\<close>

datatype event =
    Get string real
  | Post string pyval real
  | Sleep real
  | CamOpen
  | CamRead
  | CamRelease
  | SaveImage string
  | Publish "string option" bool "pyval option"

record world =
  times :: "nat \<Rightarrow> real"
  gets :: "nat \<Rightarrow> reply"
  posts :: "nat \<Rightarrow> reply"
  captures :: "nat \<Rightarrow> capture"
  trace :: "event list"

definition time_time :: "world \<Rightarrow> real \<times> world" where
  "time_time w = (times w 0, w\<lparr>times := (\<lambda>n. times w (Suc n))\<rparr>)"

text \<open>\<^verbatim>\<open>time.sleep(d)\<close> raises \<^verbatim>\<open>ValueError\<close> for a negative \<open>d\<close> and sleeps
  otherwise.\<close>

definition time_sleep :: "real \<Rightarrow> world \<Rightarrow> py_exc + world" where
  "time_sleep d w = (if d < 0 then Inl ValueError else Inr (w\<lparr>trace := trace w @ [Sleep d]\<rparr>))"

definition requests_get :: "string \<Rightarrow> real \<Rightarrow> world \<Rightarrow> reply \<times> world" where
  "requests_get url tmo w =
     (gets w 0, w\<lparr>gets := (\<lambda>n. gets w (Suc n)), trace := trace w @ [Get url tmo]\<rparr>)"

definition requests_post :: "string \<Rightarrow> pyval \<Rightarrow> real \<Rightarrow> world \<Rightarrow> reply \<times> world" where
  "requests_post url payload tmo w =
     (posts w 0, w\<lparr>posts := (\<lambda>n. posts w (Suc n)), trace := trace w @ [Post url payload tmo]\<rparr>)"

text \<open>\<^verbatim>\<open>response.raise_for_status()\<close> of \<^verbatim>\<open>requests\<close>: an \<^verbatim>\<open>HTTPError\<close> for a client
  error (4xx) or a server error (5xx), nothing for any other status.\<close>

definition raise_for_status :: "int \<Rightarrow> bool" where
  "raise_for_status status \<longleftrightarrow> 400 \<le> status \<and> status < 600"

section \<open>lm\_studio\_client.py\<close>

text \<open>The client object: what \<^verbatim>\<open>__init__\<close> reads from the configuration, and the
  two fields of the health cache. \<open>vision_timeout\<close> is
  \<^verbatim>\<open>config["timeouts"]["vision_request"]\<close>, \<open>None\<close> when the key is missing.\<close>

record LMStudioClient =
  base_url :: string
  chat_endpoint :: string
  models_endpoint :: string
  primary_model :: string
  vision_model :: string
  timeout :: real
  health_timeout :: real
  vision_timeout :: "real option"
  max_retries :: int
  retry_delay :: real
  last_health_check :: "real option"
  is_healthy :: bool

text \<open>The guard of the cache. \<^verbatim>\<open>if not force and self._last_health_check:\<close> is a truth
  value test, for which \<^verbatim>\<open>None\<close> is false and so is the timestamp \<^verbatim>\<open>0.0\<close>; inside it,
  \<^verbatim>\<open>now - self._last_health_check < 30\<close>. Timestamps are the clock's readings as exact
  numbers.\<close>

definition cache_is_fresh :: "real option \<Rightarrow> real \<Rightarrow> bool" where
  "cache_is_fresh checked_at now =
     (case checked_at of None \<Rightarrow> False | Some t \<Rightarrow> t \<noteq> 0 \<and> now - t < 30)"

definition health_check :: "bool \<Rightarrow> LMStudioClient \<Rightarrow> world \<Rightarrow> bool \<times> LMStudioClient \<times> world" where
  "health_check force c w =
     (let (now, w1) = time_time w in
      if \<not> force \<and> cache_is_fresh (last_health_check c) now
      then (is_healthy c, c, w1)
      else
        (let (r, w2) = requests_get (models_endpoint c) (health_timeout c) w1 in
         case r of
           Response status body \<Rightarrow>
             (status = 200, c\<lparr>last_health_check := Some now, is_healthy := (status = 200)\<rparr>, w2)
         | _ \<Rightarrow> (False, c\<lparr>last_health_check := Some now, is_healthy := False\<rparr>, w2)))"

text \<open>\<^verbatim>\<open>data["choices"][0]["message"]["content"]\<close>\<close>

definition extract_content :: "pyval \<Rightarrow> py_exc + pyval" where
  "extract_content data =
     (case py_getitem data ''choices'' of
        Inl e \<Rightarrow> Inl e
      | Inr choices \<Rightarrow>
          (case py_first choices of
             Inl e \<Rightarrow> Inl e
           | Inr choice \<Rightarrow>
               (case py_getitem choice ''message'' of
                  Inl e \<Rightarrow> Inl e
                | Inr message \<Rightarrow> py_getitem message ''content'')))"

text \<open>What both completion calls do with an answer of the backend:
  \<^verbatim>\<open>raise_for_status\<close>, \<^verbatim>\<open>json\<close>, the content of the first choice. Every exception
  of these three steps ends in a handler that returns \<^verbatim>\<open>None\<close>.\<close>

definition read_response :: "int \<Rightarrow> pyval option \<Rightarrow> pyval" where
  "read_response status body =
     (if raise_for_status status then PyNone
      else case body of
        None \<Rightarrow> PyNone
      | Some data \<Rightarrow> (case extract_content data of Inl e \<Rightarrow> PyNone | Inr content \<Rightarrow> content))"

text \<open>\<^verbatim>\<open>model = model or self.primary_model\<close>: a missing and an empty model name both
  give the default.\<close>

definition model_or :: "string option \<Rightarrow> string \<Rightarrow> string" where
  "model_or model dflt = (case model of None \<Rightarrow> dflt | Some m \<Rightarrow> if m = [] then dflt else m)"

definition chat_messages :: "pyval \<Rightarrow> string option \<Rightarrow> pyval list" where
  "chat_messages prompt system_prompt =
     (case system_prompt of
        None \<Rightarrow> []
      | Some sp \<Rightarrow>
          if sp = [] then []
          else [PyDict [(''role'', PyStr ''system''), (''content'', PyStr sp)]])
     @ [PyDict [(''role'', PyStr ''user''), (''content'', prompt)]]"

definition chat_payload :: "string \<Rightarrow> pyval list \<Rightarrow> real \<Rightarrow> int \<Rightarrow> pyval" where
  "chat_payload model messages temperature max_tokens =
     PyDict [(''model'', PyStr model),
             (''messages'', PyList messages),
             (''temperature'', PyFloat temperature),
             (''max_tokens'', PyInt max_tokens),
             (''stream'', PyBool False)]"

text \<open>The retry loop \<^verbatim>\<open>for attempt in range(self.max_retries)\<close>, entered with
  \<open>attempt = 0\<close>. The sleep between two attempts stands inside the \<^verbatim>\<open>except\<close> handler
  of the failed attempt, so what it raises is caught by no clause of the \<^verbatim>\<open>try\<close> and
  leaves the function: the result is \<open>Inl\<close> of that exception.\<close>

function chat_attempts ::
  "LMStudioClient \<Rightarrow> pyval \<Rightarrow> int \<Rightarrow> world \<Rightarrow> (py_exc + pyval) \<times> world" where
  "chat_attempts c payload attempt w =
     (if attempt < max_retries c then
        (case requests_post (chat_endpoint c) payload (timeout c) w of (r, w1) \<Rightarrow>
           (case r of
              Response status body \<Rightarrow> (Inr (read_response status body), w1)
            | ConnectionError \<Rightarrow>
                (if attempt < max_retries c - 1 then
                   (case time_sleep (retry_delay c) w1 of
                      Inl e \<Rightarrow> (Inl e, w1)
                    | Inr w2 \<Rightarrow> chat_attempts c payload (attempt + 1) w2)
                 else chat_attempts c payload (attempt + 1) w1)
            | Timeout \<Rightarrow>
                (if attempt < max_retries c - 1 then
                   (case time_sleep (retry_delay c) w1 of
                      Inl e \<Rightarrow> (Inl e, w1)
                    | Inr w2 \<Rightarrow> chat_attempts c payload (attempt + 1) w2)
                 else chat_attempts c payload (attempt + 1) w1)
            | RequestFailed \<Rightarrow> (Inr PyNone, w1)))
      else (Inr PyNone, w))"
  by pat_completeness auto
termination
  by (relation "measure (\<lambda>(c, payload, attempt, w). nat (max_retries c - attempt))") auto

declare chat_attempts.simps [simp del]

text \<open>\<^verbatim>\<open>chat_completion\<close>: \<open>Inr\<close> of what it returns (\<open>PyNone\<close> for \<^verbatim>\<open>None\<close>), or
  \<open>Inl\<close> of the exception that leaves it.\<close>

definition chat_completion ::
  "pyval \<Rightarrow> string option \<Rightarrow> real \<Rightarrow> int \<Rightarrow> string option \<Rightarrow> LMStudioClient \<Rightarrow> world
     \<Rightarrow> (py_exc + pyval) \<times> LMStudioClient \<times> world" where
  "chat_completion prompt model temperature max_tokens system_prompt c w =
     (case health_check False c w of (ok, c1, w1) \<Rightarrow>
        if \<not> ok then (Inr PyNone, c1, w1)
        else
          (let payload = chat_payload (model_or model (primary_model c1))
                           (chat_messages prompt system_prompt) temperature max_tokens in
           case chat_attempts c1 payload 0 w1 of (res, w2) \<Rightarrow> (res, c1, w2)))"

definition vision_payload :: "string \<Rightarrow> pyval \<Rightarrow> string \<Rightarrow> real \<Rightarrow> pyval" where
  "vision_payload model prompt image_base64 temperature =
     PyDict [(''model'', PyStr model),
             (''messages'', PyList
                [PyDict [(''role'', PyStr ''user''),
                         (''content'', PyList
                            [PyDict [(''type'', PyStr ''text''), (''text'', prompt)],
                             PyDict [(''type'', PyStr ''image_url''),
                                     (''image_url'', PyDict
                                        [(''url'', PyStr (''data:image/jpeg;base64,'' @ image_base64))])]])]]),
             (''temperature'', PyFloat temperature)]"

text \<open>One \<^verbatim>\<open>try\<close> around one \<^verbatim>\<open>requests.post\<close>; \<^verbatim>\<open>except Exception\<close> returns
  \<^verbatim>\<open>None\<close>. The timeout argument is looked up in the configuration inside the
  \<^verbatim>\<open>try\<close>, before the call is made.\<close>

definition vision_completion ::
  "pyval \<Rightarrow> string \<Rightarrow> string option \<Rightarrow> real \<Rightarrow> LMStudioClient \<Rightarrow> world
     \<Rightarrow> pyval \<times> LMStudioClient \<times> world" where
  "vision_completion prompt image_base64 model temperature c w =
     (case health_check False c w of (ok, c1, w1) \<Rightarrow>
        if \<not> ok then (PyNone, c1, w1)
        else
          (let payload = vision_payload (model_or model (vision_model c1))
                           prompt image_base64 temperature in
           case vision_timeout c1 of
             None \<Rightarrow> (PyNone, c1, w1)
           | Some tmo \<Rightarrow>
               (case requests_post (chat_endpoint c1) payload tmo w1 of (r, w2) \<Rightarrow>
                  (case r of
                     Response status body \<Rightarrow> (read_response status body, c1, w2)
                   | _ \<Rightarrow> (PyNone, c1, w2)))))"

text \<open>\<^verbatim>\<open>__init__\<close>: the endpoints are the base URL followed by the configured paths, and
  the health cache starts empty.\<close>

definition LMStudioClient_init ::
  "string \<Rightarrow> string \<Rightarrow> string \<Rightarrow> string \<Rightarrow> string \<Rightarrow> real \<Rightarrow> real \<Rightarrow> real option \<Rightarrow> int \<Rightarrow> real
     \<Rightarrow> LMStudioClient" where
  "LMStudioClient_init base chat models primary vision chat_tmo health_tmo vision_tmo attempts delay =
     \<lparr>base_url = base, chat_endpoint = base @ chat, models_endpoint = base @ models,
      primary_model = primary, vision_model = vision, timeout = chat_tmo,
      health_timeout = health_tmo, vision_timeout = vision_tmo, max_retries = attempts,
      retry_delay = delay, last_health_check = None, is_healthy = False\<rparr>"

section \<open>vision\_router\_fixed.py\<close>

definition VISION_INTENTS :: "string set" where
  "VISION_INTENTS =
     {''see'', ''see_me'', ''check_wellbeing'', ''identify_objects'', ''read_text'', ''save_view''}"

text \<open>\<^verbatim>\<open>_capture_frame\<close>: open the device, wait 0.2 seconds, read, release, encode. Every
  exception is caught and gives \<^verbatim>\<open>None\<close>; one raised by \<^verbatim>\<open>cap.read()\<close> skips the
  release.\<close>

definition capture_frame :: "world \<Rightarrow> string option \<times> world" where
  "capture_frame w =
     (let w0 = w\<lparr>captures := (\<lambda>n. captures w (Suc n))\<rparr> in
      case captures w 0 of
        OpenRaises \<Rightarrow> (None, w0\<lparr>trace := trace w @ [CamOpen]\<rparr>)
      | ReadRaises \<Rightarrow> (None, w0\<lparr>trace := trace w @ [CamOpen, Sleep (2 / 10), CamRead]\<rparr>)
      | ReadFails \<Rightarrow>
          (None, w0\<lparr>trace := trace w @ [CamOpen, Sleep (2 / 10), CamRead, CamRelease]\<rparr>)
      | EncodeRaises \<Rightarrow>
          (None, w0\<lparr>trace := trace w @ [CamOpen, Sleep (2 / 10), CamRead, CamRelease]\<rparr>)
      | Frame image_b64 \<Rightarrow>
          (Some image_b64,
           w0\<lparr>trace := trace w @ [CamOpen, Sleep (2 / 10), CamRead, CamRelease]\<rparr>))"

definition prompts :: "(string \<times> string) list" where
  "prompts =
     [(''see'', ''Describe what you see in this image in 2-3 sentences.''),
      (''see_me'',
         ''Is there a person visible in this image? '' @
         ''If yes, briefly describe what you can see about them (position, posture, etc). '' @
         ''If no, describe what is visible instead.''),
      (''check_wellbeing'',
         ''Analyze the person in this image. '' @
         ''Do they appear tired, stressed, energetic, or calm? '' @
         ''Provide a brief wellbeing assessment based on visible cues.''),
      (''identify_objects'',
         ''List all objects you can identify in this image. '' @
         ''Format: Object 1, Object 2, Object 3, etc.''),
      (''read_text'',
         ''Extract and transcribe any visible text in this image. '' @
         ''If no text is visible, state 'No text detected'.''),
      (''save_view'', ''Describe this scene in detail for archival purposes.'')]"

text \<open>\<^verbatim>\<open>_get_vision_prompt\<close>. The route passes whatever value the request held as
  prompt, so \<^verbatim>\<open>len(user_prompt)\<close> can raise.\<close>

definition get_vision_prompt :: "string \<Rightarrow> pyval \<Rightarrow> py_exc + pyval" where
  "get_vision_prompt intent user_prompt =
     (if truthy user_prompt then
        (case py_len user_prompt of
           Inl e \<Rightarrow> Inl e
         | Inr n \<Rightarrow>
             if 10 < n then Inr user_prompt
             else Inr (PyStr (case map_of prompts intent of
                                None \<Rightarrow> ''Describe what you see.'' | Some p \<Rightarrow> p)))
      else Inr (PyStr (case map_of prompts intent of
                         None \<Rightarrow> ''Describe what you see.'' | Some p \<Rightarrow> p)))"

text \<open>
  Modelled from the spec: the module \<^verbatim>\<open>vision_state\<close> with \<^verbatim>\<open>update_vision_state\<close> is
  not among the sources. The specification's VisionState is
  \<^verbatim>\<open>{ intent: string | absent, active: bool, result: string | absent, updated_at: timestamp }\<close>,
  "set to active=true at the start of a capture, cleared to active=false with result
  populated". An update replaces the fields it is given, keeps the others, stamps the
  time and publishes the new state (the event \<open>Publish intent active result\<close>).
\<close>

record VisionState =
  intent :: "string option"
  active :: bool
  result :: "pyval option"
  updated_at :: real

definition update_vision_state ::
  "string option \<Rightarrow> bool option \<Rightarrow> pyval option \<Rightarrow> VisionState \<Rightarrow> world \<Rightarrow> VisionState \<times> world" where
  "update_vision_state new_intent new_active new_result vs w =
     (case time_time w of (now, w1) \<Rightarrow>
        (let vs1 = \<lparr>intent = (case new_intent of None \<Rightarrow> intent vs | Some i \<Rightarrow> Some i),
                    active = (case new_active of None \<Rightarrow> active vs | Some a \<Rightarrow> a),
                    result = (case new_result of None \<Rightarrow> result vs | Some r \<Rightarrow> Some r),
                    updated_at = now\<rparr>
         in (vs1, w1\<lparr>trace := trace w1 @ [Publish (intent vs1) (active vs1) (result vs1)]\<rparr>)))"

text \<open>
  \<^verbatim>\<open>handle_vision_intent\<close>. \<open>str_exc\<close> is \<^verbatim>\<open>str(e)\<close>, the interpreter's text for an
  exception. The client is the singleton that \<^verbatim>\<open>get_client()\<close> returns. The result is
  \<open>Inl\<close> where an exception leaves the function: \<^verbatim>\<open>len(user_prompt)\<close> and the slice
  \<^verbatim>\<open>vision_prompt[:80]\<close> stand outside the \<^verbatim>\<open>try\<close>. Inside it, the slice
  \<^verbatim>\<open>result_text[:100]\<close> raises for an answer that is neither a string nor a list.
\<close>

definition handle_vision_intent ::
  "(py_exc \<Rightarrow> string) \<Rightarrow> string \<Rightarrow> pyval \<Rightarrow> bool \<Rightarrow> LMStudioClient \<Rightarrow> VisionState \<Rightarrow> world
     \<Rightarrow> (py_exc + pyval) \<times> LMStudioClient \<times> VisionState \<times> world" where
  "handle_vision_intent str_exc vintent prompt save_image c vs w =
     (case update_vision_state (Some vintent) (Some True) None vs w of (vs1, w1) \<Rightarrow>
     (case capture_frame w1 of (frame, w2) \<Rightarrow>
     (case (case frame of None \<Rightarrow> [] | Some b \<Rightarrow> b) of
        [] \<Rightarrow>
          (case update_vision_state None (Some False) (Some (PyStr ''Camera capture failed'')) vs1 w2
           of (vs2, w3) \<Rightarrow>
             (Inr (PyDict [(''error'', PyStr ''camera_failed''),
                           (''message'', PyStr ''Unable to access camera'')]), c, vs2, w3))
      | ch # rest \<Rightarrow>
          (let image_b64 = ch # rest;
               w3 = (if save_image then w2\<lparr>trace := trace w2 @ [SaveImage image_b64]\<rparr> else w2) in
           case get_vision_prompt vintent prompt of
             Inl e \<Rightarrow> (Inl e, c, vs1, w3)
           | Inr vision_prompt \<Rightarrow>
               if \<not> sliceable vision_prompt then (Inl TypeError, c, vs1, w3)
               else
                 (case health_check False c w3 of (ok, c1, w4) \<Rightarrow>
                    if \<not> ok then
                      (case update_vision_state None (Some False)
                              (Some (PyStr ''LM Studio not connected'')) vs1 w4
                       of (vs2, w5) \<Rightarrow>
                         (Inr (PyDict [(''error'', PyStr ''lm_studio_disconnected''),
                                       (''message'', PyStr ''LM Studio not connected'')]),
                          c1, vs2, w5))
                    else
                      (case vision_completion vision_prompt image_b64 None (2 / 10) c1 w4
                       of (result_text, c2, w5) \<Rightarrow>
                         if truthy result_text then
                           if sliceable result_text then
                             (case update_vision_state None (Some False) (Some result_text) vs1 w5
                              of (vs2, w6) \<Rightarrow>
                                (Inr (PyDict [(''intent'', PyStr vintent),
                                              (''result'', result_text),
                                              (''success'', PyBool True)]), c2, vs2, w6))
                           else
                             (case update_vision_state None (Some False)
                                     (Some (PyStr (str_exc TypeError))) vs1 w5
                              of (vs2, w6) \<Rightarrow>
                                (Inr (PyDict [(''error'', PyStr ''vision_failed''),
                                              (''message'', PyStr (str_exc TypeError))]),
                                 c2, vs2, w6))
                         else
                           (case update_vision_state None (Some False)
                                   (Some (PyStr ''Vision model returned no response'')) vs1 w5
                            of (vs2, w6) \<Rightarrow>
                              (Inr (PyDict [(''error'', PyStr ''no_response''),
                                            (''message'', PyStr ''Vision model returned no response'')]),
                               c2, vs2, w6))))))))"

section \<open>lana\_server\_fixed.py\<close>

subsection \<open>Memory\<close>

text \<open>The file \<^verbatim>\<open>learned_triggers.json\<close>: missing, not JSON, or holding a JSON value.
  Failures of the file system itself are not modelled.\<close>

datatype file_state = Missing | Invalid | Json pyval

text \<open>\<^verbatim>\<open>d[k] = v\<close> on a dict: an existing key keeps its place, a new one goes last.\<close>

fun dict_set :: "string \<Rightarrow> pyval \<Rightarrow> (string \<times> pyval) list \<Rightarrow> (string \<times> pyval) list" where
  "dict_set k v [] = [(k, v)]"
| "dict_set k v ((k', v') # kvs) = (if k' = k then (k, v) # kvs else (k', v') # dict_set k v kvs)"

text \<open>\<^verbatim>\<open>k in v\<close> for a string \<open>k\<close>: a key of a dict, an element of a list, a substring of
  a string.\<close>

fun py_contains :: "pyval \<Rightarrow> string \<Rightarrow> py_exc + bool" where
  "py_contains (PyDict kvs) k = Inr (map_of kvs k \<noteq> None)"
| "py_contains (PyList xs) k = Inr (PyStr k \<in> set xs)"
| "py_contains (PyStr s) k = Inr (sublist k s)"
| "py_contains _ k = Inl TypeError"

fun py_setitem :: "pyval \<Rightarrow> string \<Rightarrow> pyval \<Rightarrow> py_exc + pyval" where
  "py_setitem (PyDict kvs) k v = Inr (PyDict (dict_set k v kvs))"
| "py_setitem _ k v = Inl TypeError"

text \<open>\<^verbatim>\<open>if k not in data: data[k] = default\<close>\<close>

definition ensure_key :: "string \<Rightarrow> pyval \<Rightarrow> pyval \<Rightarrow> py_exc + pyval" where
  "ensure_key k dflt data =
     (case py_contains data k of
        Inl e \<Rightarrow> Inl e
      | Inr present \<Rightarrow> if present then Inr data else py_setitem data k dflt)"

definition empty_memory :: pyval where
  "empty_memory = PyDict [(''recent_memory'', PyList []), (''known_intents'', PyDict [])]"

definition load_memory :: "file_state \<Rightarrow> py_exc + pyval" where
  "load_memory f =
     (case f of
        Missing \<Rightarrow> Inr empty_memory
      | Invalid \<Rightarrow> Inr empty_memory
      | Json data \<Rightarrow>
          (case ensure_key ''recent_memory'' (PyList []) data of
             Inl e \<Rightarrow> Inl e
           | Inr data1 \<Rightarrow> ensure_key ''known_intents'' (PyDict []) data1))"

text \<open>\<^verbatim>\<open>save_context\<close>. \<^verbatim>\<open>xs[-100:]\<close> is the last 100 elements of \<open>xs\<close>. The file is
  written only when nothing before the write raised.\<close>

definition save_context :: "pyval \<Rightarrow> file_state \<Rightarrow> py_exc + file_state" where
  "save_context entry f =
     (case load_memory f of
        Inl e \<Rightarrow> Inl e
      | Inr data \<Rightarrow>
          (case py_getitem data ''recent_memory'' of
             Inl e \<Rightarrow> Inl e
           | Inr recent \<Rightarrow>
               (case recent of
                  PyList es \<Rightarrow>
                    (let appended = es @ [entry];
                         kept = (if 100 < length appended
                                 then drop (length appended - 100) appended else appended) in
                     case py_setitem data ''recent_memory'' (PyList kept) of
                       Inl e \<Rightarrow> Inl e
                     | Inr data1 \<Rightarrow> Inr (Json data1))
                | _ \<Rightarrow> Inl AttributeError)))"

text \<open>The retained history: the list under \<^verbatim>\<open>recent_memory\<close> that \<^verbatim>\<open>load_memory\<close>
  finds.\<close>

definition recent_memory :: "file_state \<Rightarrow> pyval list" where
  "recent_memory f =
     (case load_memory f of
        Inl e \<Rightarrow> []
      | Inr data \<Rightarrow> (case py_getitem data ''recent_memory'' of Inr (PyList es) \<Rightarrow> es | _ \<Rightarrow> []))"

text \<open>A sequence of appends, stopping at the first that raises.\<close>

fun save_all :: "pyval list \<Rightarrow> file_state \<Rightarrow> py_exc + file_state" where
  "save_all [] f = Inr f"
| "save_all (entry # entries) f =
     (case save_context entry f of Inl e \<Rightarrow> Inl e | Inr f1 \<Rightarrow> save_all entries f1)"

subsection \<open>The route\<close>

text \<open>\<^verbatim>\<open>s.split()\<close>: the words of \<open>s\<close>, separated by runs of whitespace.\<close>

definition is_space :: "char \<Rightarrow> bool" where
  "is_space ch \<longleftrightarrow> (of_char ch :: nat) \<in> {9, 10, 11, 12, 13, 28, 29, 30, 31, 32, 133, 160}"

fun split_from :: "string \<Rightarrow> string \<Rightarrow> string list" where
  "split_from word [] = (if word = [] then [] else [word])"
| "split_from word (ch # rest) =
     (if is_space ch then (if word = [] then split_from [] rest else word # split_from [] rest)
      else split_from (word @ [ch]) rest)"

text \<open>\<^verbatim>\<open>len(v.split())\<close>: only a string has the method.\<close>

fun split_len :: "pyval \<Rightarrow> py_exc + nat" where
  "split_len (PyStr s) = Inr (length (split_from [] s))"
| "split_len _ = Inl AttributeError"

text \<open>
  What the route uses and the sources do not hold: \<^verbatim>\<open>match_intent\<close> of the module
  \<^verbatim>\<open>intent_engine\<close>, \<^verbatim>\<open>execute_command\<close> of the module \<^verbatim>\<open>actions\<close>, the manifest
  loaded at boot, and the interpreter's texts for an exception (\<^verbatim>\<open>str(e)\<close>) and for a
  value inside an f-string. They are parameters; the first two may raise. The route
  imports \<^verbatim>\<open>handle_vision_intent\<close> and \<^verbatim>\<open>VISION_INTENTS\<close> from a module
  \<^verbatim>\<open>vision_router\<close>, taken to be \<^verbatim>\<open>vision_router_fixed.py\<close>.
\<close>

record deps =
  match_intent :: "pyval \<Rightarrow> py_exc + string option"
  execute_command :: "string \<Rightarrow> pyval \<Rightarrow> py_exc + pyval"
  str_exc :: "py_exc \<Rightarrow> string"
  str_val :: "pyval \<Rightarrow> string"
  lana_manifest :: "(string \<times> pyval) list"

record server =
  lm_client :: LMStudioClient
  vision_state :: VisionState
  memory_file :: file_state
  io :: world

definition py_str :: "deps \<Rightarrow> pyval \<Rightarrow> string" where
  "py_str d v = (case v of PyStr s \<Rightarrow> s | _ \<Rightarrow> str_val d v)"

definition apology :: string where
  "apology =
     ''I can't connect to my language model right now. '' @
     ''Please make sure LM Studio is running and the server is started.''"

text \<open>Lines 166 to 172: the prompt, from \<^verbatim>\<open>prompt\<close>, \<^verbatim>\<open>input\<close> or the last of
  \<^verbatim>\<open>messages\<close>.\<close>

definition extract_prompt :: "pyval \<Rightarrow> py_exc + pyval" where
  "extract_prompt body =
     (case py_get body ''prompt'' PyNone of
        Inl e \<Rightarrow> Inl e
      | Inr p \<Rightarrow>
          if truthy p then Inr p
          else
            (case py_get body ''input'' PyNone of
               Inl e \<Rightarrow> Inl e
             | Inr prompt \<Rightarrow>
                 if truthy prompt then Inr prompt
                 else
                   (case py_get body ''messages'' (PyList []) of
                      Inl e \<Rightarrow> Inl e
                    | Inr messages \<Rightarrow>
                        if truthy messages then
                          (case py_len messages of
                             Inl e \<Rightarrow> Inl e
                           | Inr n \<Rightarrow>
                               if 0 < n then
                                 (case py_last messages of
                                    Inl e \<Rightarrow> Inl e
                                  | Inr m \<Rightarrow> py_get m ''content'' (PyStr []))
                               else Inr prompt)
                        else Inr prompt)))"

text \<open>Lines 207 to 231: no intent matched, the prompt goes to the model.\<close>

definition forward_to_llm :: "deps \<Rightarrow> pyval \<Rightarrow> pyval \<Rightarrow> server \<Rightarrow> (py_exc + pyval) \<times> server" where
  "forward_to_llm d prompt linked_user sv =
     (case health_check False (lm_client sv) (io sv) of (ok, c1, w1) \<Rightarrow>
        if \<not> ok then (Inr (PyStr apology), sv\<lparr>lm_client := c1, io := w1\<rparr>)
        else
          (case chat_completion prompt None (7 / 10) 1000
                  (Some (''You are LANA, a helpful AI assistant linked to '' @
                         py_str d linked_user @ ''. Be warm, concise, and helpful.''))
                  c1 w1
           of (r, c2, w2) \<Rightarrow>
             (case r of
                Inl e \<Rightarrow> (Inl e, sv\<lparr>lm_client := c2, io := w2\<rparr>)
              | Inr llm_response \<Rightarrow>
                  (Inr (if truthy llm_response then llm_response
                        else PyStr ''I'm having trouble generating a response right now.''),
                   sv\<lparr>lm_client := c2, io := w2\<rparr>))))"

text \<open>Lines 193 to 199: a vision intent.\<close>

definition vision_reply :: "deps \<Rightarrow> string \<Rightarrow> pyval \<Rightarrow> server \<Rightarrow> (py_exc + pyval) \<times> server" where
  "vision_reply d vintent prompt sv =
     (case handle_vision_intent (str_exc d) vintent prompt False
             (lm_client sv) (vision_state sv) (io sv)
      of (r, c, vs, w) \<Rightarrow>
        (case r of
           Inl e \<Rightarrow> (Inl e, sv\<lparr>lm_client := c, vision_state := vs, io := w\<rparr>)
         | Inr vision_result \<Rightarrow>
             (case py_contains vision_result ''error'' of
                Inl e \<Rightarrow> (Inl e, sv\<lparr>lm_client := c, vision_state := vs, io := w\<rparr>)
              | Inr failed \<Rightarrow>
                  if failed then
                    (case py_getitem vision_result ''error'' of
                       Inl e \<Rightarrow> (Inl e, sv\<lparr>lm_client := c, vision_state := vs, io := w\<rparr>)
                     | Inr err \<Rightarrow>
                         (Inr (PyStr (''Vision error: '' @ py_str d err)),
                          sv\<lparr>lm_client := c, vision_state := vs, io := w\<rparr>))
                  else
                    (py_get vision_result ''result'' (PyStr ''No vision result''),
                     sv\<lparr>lm_client := c, vision_state := vs, io := w\<rparr>))))"

text \<open>Lines 186 to 231: the three handlers. The result is the response text.
  \<^verbatim>\<open>if intent:\<close> is a truth value test, so an empty intent counts as no match.\<close>

definition dispatch ::
  "deps \<Rightarrow> pyval \<Rightarrow> pyval \<Rightarrow> string option \<Rightarrow> server \<Rightarrow> (py_exc + pyval) \<times> server" where
  "dispatch d prompt linked_user matched sv =
     (case matched of
        None \<Rightarrow> forward_to_llm d prompt linked_user sv
      | Some i \<Rightarrow>
          if i = [] then forward_to_llm d prompt linked_user sv
          else if i \<in> VISION_INTENTS then vision_reply d i prompt sv
          else (execute_command d i prompt, sv))"

text \<open>The body of the \<^verbatim>\<open>try\<close>. \<open>request_json\<close> is what
  \<^verbatim>\<open>request.get_json(force=True)\<close> returns, \<open>None\<close> when it raises because the body is not
  JSON. The slice \<^verbatim>\<open>response_text[:100]\<close> of the log line comes before the save, the
  two \<^verbatim>\<open>split()\<close> of the usage counts after it.\<close>

definition chat_completions_try ::
  "deps \<Rightarrow> pyval option \<Rightarrow> server \<Rightarrow> (py_exc + pyval \<times> nat) \<times> server" where
  "chat_completions_try d request_json sv =
     (case request_json of
        None \<Rightarrow> (Inl BadRequest, sv)
      | Some body \<Rightarrow>
     (case extract_prompt body of
        Inl e \<Rightarrow> (Inl e, sv)
      | Inr prompt \<Rightarrow>
     if \<not> truthy prompt then (Inr (PyDict [(''error'', PyStr ''No input provided'')], 400), sv)
     else
     (case py_get body ''linked_user'' (dict_get (lana_manifest d) ''linked_user'' (PyStr ''unknown'')) of
        Inl e \<Rightarrow> (Inl e, sv)
      | Inr linked_user \<Rightarrow>
     (case match_intent d prompt of
        Inl e \<Rightarrow> (Inl e, sv)
      | Inr matched \<Rightarrow>
     (case dispatch d prompt linked_user matched sv of (r, sv1) \<Rightarrow>
     (case r of
        Inl e \<Rightarrow> (Inl e, sv1)
      | Inr response_text \<Rightarrow>
     if \<not> sliceable response_text then (Inl TypeError, sv1)
     else
     (case save_context
             (PyDict [(''user'', linked_user), (''prompt'', prompt), (''response'', response_text),
                      (''intent'', (case matched of None \<Rightarrow> PyNone | Some i \<Rightarrow> PyStr i))])
             (memory_file sv1) of
        Inl e \<Rightarrow> (Inl e, sv1)
      | Inr f \<Rightarrow>
     (case split_len prompt of
        Inl e \<Rightarrow> (Inl e, sv1\<lparr>memory_file := f\<rparr>)
      | Inr prompt_tokens \<Rightarrow>
     (case split_len response_text of
        Inl e \<Rightarrow> (Inl e, sv1\<lparr>memory_file := f\<rparr>)
      | Inr completion_tokens \<Rightarrow>
        (Inr (PyDict
               [(''id'', PyStr ''lana-local''),
                (''object'', PyStr ''chat.completion''),
                (''model'', PyStr (primary_model (lm_client sv1))),
                (''choices'', PyList
                   [PyDict [(''index'', PyInt 0),
                            (''message'', PyDict [(''role'', PyStr ''assistant''),
                                                  (''content'', response_text)]),
                            (''finish_reason'', PyStr ''stop'')]]),
                (''usage'', PyDict
                   [(''prompt_tokens'', PyInt (int prompt_tokens)),
                    (''completion_tokens'', PyInt (int completion_tokens)),
                    (''total_tokens'', PyInt (int (prompt_tokens + completion_tokens)))])],
              200),
         sv1\<lparr>memory_file := f\<rparr>))))))))))"

text \<open>\<^verbatim>\<open>chat_completions\<close>: \<^verbatim>\<open>except Exception\<close> turns whatever the body raised into
  the response with status 500.\<close>

definition chat_completions :: "deps \<Rightarrow> pyval option \<Rightarrow> server \<Rightarrow> (pyval \<times> nat) \<times> server" where
  "chat_completions d request_json sv =
     (case chat_completions_try d request_json sv of (r, sv1) \<Rightarrow>
        (case r of
           Inl e \<Rightarrow>
             ((PyDict [(''error'', PyStr (str_exc d e)), (''type'', PyStr ''server_error'')], 500), sv1)
         | Inr response \<Rightarrow> (response, sv1)))"

text \<open>The response text of the route's answer: \<^verbatim>\<open>choices[0].message.content\<close>.\<close>

definition response_content :: "pyval \<Rightarrow> py_exc + pyval" where
  "response_content body = extract_content body"

section \<open>Observing a call\<close>

text \<open>The events a call added to the trace, and the payloads of the POSTs among them.\<close>

definition new_events :: "world \<Rightarrow> world \<Rightarrow> event list" where
  "new_events w w' = drop (length (trace w)) (trace w')"

fun post_payloads :: "event list \<Rightarrow> pyval list" where
  "post_payloads [] = []"
| "post_payloads (Post url payload tmo # es) = payload # post_payloads es"
| "post_payloads (e # es) = post_payloads es"

definition dict_keys :: "pyval \<Rightarrow> string list" where
  "dict_keys v = (case v of PyDict kvs \<Rightarrow> map fst kvs | _ \<Rightarrow> [])"

text \<open>A body without \<^verbatim>\<open>choices[0].message.content\<close>: it is not JSON, or the lookup
  raises.\<close>

definition no_content :: "pyval option \<Rightarrow> bool" where
  "no_content body = (case body of None \<Rightarrow> True | Some data \<Rightarrow> isl (extract_content data))"

text \<open>The specification's retry schedule, in its own words: \<open>n\<close> attempts \<open>p\<close>, spaced
  by the wait \<open>s\<close>.\<close>

fun refused_trace :: "event \<Rightarrow> event \<Rightarrow> nat \<Rightarrow> event list" where
  "refused_trace p s 0 = []"
| "refused_trace p s (Suc 0) = [p]"
| "refused_trace p s (Suc (Suc n)) = p # s # refused_trace p s (Suc n)"

text \<open>The history file loads as a dict whose \<^verbatim>\<open>recent_memory\<close> is the list \<open>es\<close>.\<close>

definition holds_history :: "file_state \<Rightarrow> pyval list \<Rightarrow> bool" where
  "holds_history f es =
     (case load_memory f of
        Inr (PyDict kvs) \<Rightarrow> map_of kvs ''recent_memory'' = Some (PyList es)
      | _ \<Rightarrow> False)"

text \<open>The history bound in the specification's words: after the appends, the retained
  list is the most recent \<open>min N 100\<close> of the \<open>N\<close> entries, oldest first.\<close>

definition retains_last_100 :: "file_state \<Rightarrow> pyval list \<Rightarrow> bool" where
  "retains_last_100 f0 entries =
     (case save_all entries f0 of
        Inl e \<Rightarrow> False
      | Inr f \<Rightarrow>
          recent_memory f = drop (length entries - 100) entries
          \<and> length (recent_memory f) = min (length entries) 100
          \<and> length (recent_memory f) \<le> 100)"

text \<open>A request body that is a JSON object and yields no prompt: no truthy \<^verbatim>\<open>prompt\<close>, no
  truthy \<^verbatim>\<open>input\<close>, and under \<^verbatim>\<open>messages\<close> nothing, a falsy value, or a list whose last
  element is an object without truthy \<^verbatim>\<open>content\<close>.\<close>

definition yields_no_prompt :: "(string \<times> pyval) list \<Rightarrow> bool" where
  "yields_no_prompt kvs \<longleftrightarrow>
     \<not> truthy (dict_get kvs ''prompt'' PyNone)
     \<and> \<not> truthy (dict_get kvs ''input'' PyNone)
     \<and> (case dict_get kvs ''messages'' (PyList []) of
          PyList ms \<Rightarrow>
            ms = [] \<or> (case last ms of
                         PyDict m \<Rightarrow> \<not> truthy (dict_get m ''content'' (PyStr []))
                       | _ \<Rightarrow> False)
        | v \<Rightarrow> \<not> truthy v)"

text \<open>The camera gives no usable frame: any outcome but a frame with a non-empty
  encoding.\<close>

definition camera_fails :: "capture \<Rightarrow> bool" where
  "camera_fails cam = (case cam of Frame b \<Rightarrow> b = [] | _ \<Rightarrow> True)"

text \<open>What a return of \<^verbatim>\<open>handle_vision_intent\<close> leaves, in the specification's words:
  VisionState is inactive, still names the intent, and its result is populated: with the
  error text of the failure the reply names, or with the answer text of a success.\<close>

definition returned_properly ::
  "(py_exc \<Rightarrow> string) \<Rightarrow> string \<Rightarrow> pyval \<Rightarrow> VisionState \<Rightarrow> bool" where
  "returned_properly str_e vintent reply vs' \<longleftrightarrow>
     active vs' = False \<and> intent vs' = Some vintent \<and>
     ((reply = PyDict [(''error'', PyStr ''camera_failed''),
                       (''message'', PyStr ''Unable to access camera'')]
       \<and> result vs' = Some (PyStr ''Camera capture failed''))
      \<or> (reply = PyDict [(''error'', PyStr ''lm_studio_disconnected''),
                          (''message'', PyStr ''LM Studio not connected'')]
          \<and> result vs' = Some (PyStr ''LM Studio not connected''))
      \<or> (reply = PyDict [(''error'', PyStr ''no_response''),
                          (''message'', PyStr ''Vision model returned no response'')]
          \<and> result vs' = Some (PyStr ''Vision model returned no response''))
      \<or> (reply = PyDict [(''error'', PyStr ''vision_failed''),
                          (''message'', PyStr (str_e TypeError))]
          \<and> result vs' = Some (PyStr (str_e TypeError)))
      \<or> (\<exists>answer_text. truthy answer_text
            \<and> reply = PyDict [(''intent'', PyStr vintent), (''result'', answer_text),
                               (''success'', PyBool True)]
            \<and> result vs' = Some answer_text))"

section \<open>Concrete inputs\<close>

text \<open>A client for the values of the configuration template that the repository's
  connection test prints, completed with the retry section that \<^verbatim>\<open>__init__\<close> reads and the
  template lacks: three attempts, two seconds apart.\<close>

definition example_client :: LMStudioClient where
  "example_client =
     LMStudioClient_init ''http://127.0.0.1:1234'' ''/v1/chat/completions'' ''/v1/models''
       ''kimi-vl-a3b-thinking-2506'' ''zai-org/glm-4.6v-flash'' 120 5 (Some 60) 3 2"

text \<open>A world whose clock starts at \<open>t0\<close> and ticks once a reading, whose backend
  answers every GET with \<open>g\<close> and every POST with \<open>p\<close>, and whose camera returns \<open>cam\<close>.\<close>

definition example_world :: "real \<Rightarrow> reply \<Rightarrow> reply \<Rightarrow> capture \<Rightarrow> world" where
  "example_world t0 g p cam =
     \<lparr>times = (\<lambda>n. t0 + real n), gets = (\<lambda>n. g), posts = (\<lambda>n. p),
      captures = (\<lambda>n. cam), trace = []\<rparr>"

definition models_reply :: reply where
  "models_reply = Response 200 (Some (PyDict [(''data'', PyList [])]))"

definition answer :: "string \<Rightarrow> pyval" where
  "answer s = PyDict [(''choices'', PyList [PyDict [(''message'', PyDict [(''content'', PyStr s)])]])]"

text \<open>A client whose last health check found the backend healthy when the clock read
  1000.\<close>

definition fresh_client :: LMStudioClient where
  "fresh_client = example_client\<lparr>last_health_check := Some 1000, is_healthy := True\<rparr>"

fun exc_name :: "py_exc \<Rightarrow> string" where
  "exc_name KeyError = ''KeyError''"
| "exc_name IndexError = ''IndexError''"
| "exc_name TypeError = ''TypeError''"
| "exc_name AttributeError = ''AttributeError''"
| "exc_name JSONDecodeError = ''JSONDecodeError''"
| "exc_name BadRequest = ''BadRequest''"
| "exc_name ValueError = ''ValueError''"
| "exc_name OtherException = ''Exception''"

text \<open>Collaborators for the concrete inputs: nothing matches an intent, the text of an
  exception is the name of its class.\<close>

definition example_deps :: deps where
  "example_deps =
     \<lparr>match_intent = (\<lambda>prompt. Inr None),
      execute_command = (\<lambda>i prompt. Inr (PyStr ''done'')),
      str_exc = exc_name,
      str_val = (\<lambda>v. ''value''),
      lana_manifest = [(''linked_user'', PyStr ''user'')]\<rparr>"

text \<open>A history file whose \<^verbatim>\<open>recent_memory\<close> is null.\<close>

definition null_history :: file_state where
  "null_history = Json (PyDict [(''recent_memory'', PyNone), (''known_intents'', PyDict [])])"

definition idle_vision :: VisionState where
  "idle_vision = \<lparr>intent = None, active = False, result = None, updated_at = 0\<rparr>"

definition example_server :: "world \<Rightarrow> server" where
  "example_server w =
     \<lparr>lm_client = example_client,
      vision_state = idle_vision,
      memory_file = Missing,
      io = w\<rparr>"

section \<open>Properties of the client\<close>

lemma health_check_posts: "posts (snd (snd (health_check force c w))) = posts w"
  by (simp add: health_check_def time_time_def requests_get_def split: prod.splits reply.splits)

lemma health_check_config:
  "health_check force c w = (ok, c1, w1) \<Longrightarrow>
     chat_endpoint c1 = chat_endpoint c \<and> max_retries c1 = max_retries c \<and> retry_delay c1 = retry_delay c
     \<and> timeout c1 = timeout c \<and> vision_timeout c1 = vision_timeout c \<and> primary_model c1 = primary_model c
     \<and> vision_model c1 = vision_model c"
  by (auto simp add: health_check_def time_time_def requests_get_def Let_def split: prod.splits reply.splits if_splits)

lemma chat_attempts_done:
  "\<not> attempt < max_retries c \<Longrightarrow> chat_attempts c payload attempt w = (Inr PyNone, w)"
  by (subst chat_attempts.simps) simp

lemma chat_attempts_response:
  "attempt < max_retries c \<Longrightarrow> posts w 0 = Response status body \<Longrightarrow>
   chat_attempts c payload attempt w =
     (Inr (read_response status body), snd (requests_post (chat_endpoint c) payload (timeout c) w))"
  by (subst chat_attempts.simps) (simp add: requests_post_def)

lemma chat_attempts_failed:
  "attempt < max_retries c \<Longrightarrow> posts w 0 = RequestFailed \<Longrightarrow>
   chat_attempts c payload attempt w =
     (Inr PyNone, snd (requests_post (chat_endpoint c) payload (timeout c) w))"
  by (subst chat_attempts.simps) (simp add: requests_post_def)

lemma chat_attempts_last:
  "attempt < max_retries c \<Longrightarrow> \<not> attempt < max_retries c - 1 \<Longrightarrow>
   posts w 0 = ConnectionError \<or> posts w 0 = Timeout \<Longrightarrow>
   chat_attempts c payload attempt w =
     chat_attempts c payload (attempt + 1)
       (snd (requests_post (chat_endpoint c) payload (timeout c) w))"
  by (subst chat_attempts.simps) (auto simp add: requests_post_def)

lemma chat_attempts_sleep:
  "attempt < max_retries c - 1 \<Longrightarrow> 0 \<le> retry_delay c \<Longrightarrow>
   posts w 0 = ConnectionError \<or> posts w 0 = Timeout \<Longrightarrow>
   chat_attempts c payload attempt w =
     chat_attempts c payload (attempt + 1)
       ((snd (requests_post (chat_endpoint c) payload (timeout c) w))
          \<lparr>trace := trace w @ [Post (chat_endpoint c) payload (timeout c), Sleep (retry_delay c)]\<rparr>)"
  by (subst chat_attempts.simps) (auto simp add: requests_post_def time_sleep_def)

lemma chat_attempts_sleep_raises:
  "attempt < max_retries c - 1 \<Longrightarrow> retry_delay c < 0 \<Longrightarrow>
   posts w 0 = ConnectionError \<or> posts w 0 = Timeout \<Longrightarrow>
   chat_attempts c payload attempt w =
     (Inl ValueError, snd (requests_post (chat_endpoint c) payload (timeout c) w))"
  by (subst chat_attempts.simps) (auto simp add: requests_post_def time_sleep_def)

lemma chat_attempts_refused:
  "\<forall>n. posts w n = ConnectionError \<Longrightarrow>
   0 \<le> retry_delay c \<or> max_retries c \<le> attempt + 1 \<Longrightarrow>
   fst (chat_attempts c payload attempt w) = Inr PyNone \<and>
   trace (snd (chat_attempts c payload attempt w)) =
     trace w @ refused_trace (Post (chat_endpoint c) payload (timeout c)) (Sleep (retry_delay c))
                 (nat (max_retries c - attempt))"
proof (induction "nat (max_retries c - attempt)" arbitrary: attempt w)
  case 0
  then have "\<not> attempt < max_retries c" by simp
  with 0 show ?case by (simp add: chat_attempts_done)
next
  case (Suc k)
  let ?p = "Post (chat_endpoint c) payload (timeout c)"
  let ?w1 = "snd (requests_post (chat_endpoint c) payload (timeout c) w)"
  from Suc.hyps(2) have more: "attempt < max_retries c" by simp
  from Suc.hyps(2) have k: "k = nat (max_retries c - (attempt + 1))" by simp
  from Suc.prems(1) have p0: "posts w 0 = ConnectionError \<or> posts w 0 = Timeout" by simp
  show ?case
  proof (cases "attempt < max_retries c - 1")
    case True
    with Suc.prems(2) have delay: "0 \<le> retry_delay c" by simp
    let ?w2 = "?w1\<lparr>trace := trace w @ [?p, Sleep (retry_delay c)]\<rparr>"
    have refused: "\<forall>n. posts ?w2 n = ConnectionError"
      using Suc.prems(1) by (simp add: requests_post_def)
    from delay have next_ok: "0 \<le> retry_delay c \<or> max_retries c \<le> (attempt + 1) + 1" by simp
    define m where "m = nat (max_retries c - (attempt + 1)) - 1"
    from True have m: "nat (max_retries c - (attempt + 1)) = Suc m"
      by (simp add: m_def)
    with k Suc.hyps(2) have n: "nat (max_retries c - attempt) = Suc (Suc m)" by simp
    from Suc.hyps(1) [OF k refused next_ok]
    show ?thesis
      by (simp add: chat_attempts_sleep [OF True delay p0] m n)
  next
    case False
    with more have k0: "nat (max_retries c - (attempt + 1)) = 0"
      and n: "nat (max_retries c - attempt) = Suc 0" by simp_all
    have refused: "\<forall>n. posts ?w1 n = ConnectionError"
      using Suc.prems(1) by (simp add: requests_post_def)
    from False have next_ok: "0 \<le> retry_delay c \<or> max_retries c \<le> (attempt + 1) + 1" by simp
    from Suc.hyps(1) [OF k refused next_ok]
    show ?thesis
      by (simp add: chat_attempts_last [OF more False p0] k0 n requests_post_def)
  qed
qed

lemma post_payloads_append: "post_payloads (xs @ ys) = post_payloads xs @ post_payloads ys"
  by (induction xs rule: post_payloads.induct) auto

lemma chat_attempts_payloads:
  "\<exists>es. trace (snd (chat_attempts c payload attempt w)) = trace w @ es
        \<and> set (post_payloads es) \<subseteq> {payload}"
proof (induction "nat (max_retries c - attempt)" arbitrary: attempt w)
  case 0
  then have "\<not> attempt < max_retries c" by simp
  then show ?case by (simp add: chat_attempts_done)
next
  case (Suc k)
  let ?p = "Post (chat_endpoint c) payload (timeout c)"
  let ?w1 = "snd (requests_post (chat_endpoint c) payload (timeout c) w)"
  from Suc.hyps(2) have more: "attempt < max_retries c" by simp
  from Suc.hyps(2) have k: "k = nat (max_retries c - (attempt + 1))" by simp
  have continue: "\<exists>es. trace (snd (chat_attempts c payload (attempt + 1) w')) = trace w @ es
        \<and> set (post_payloads es) \<subseteq> {payload}"
    if "trace w' = trace w @ ps" "set (post_payloads ps) \<subseteq> {payload}" for w' ps
  proof -
    from Suc.hyps(1) [OF k, of w'] obtain es
      where "trace (snd (chat_attempts c payload (attempt + 1) w')) = trace w' @ es"
        "set (post_payloads es) \<subseteq> {payload}" by blast
    with that have "trace (snd (chat_attempts c payload (attempt + 1) w')) = trace w @ (ps @ es)"
      "set (post_payloads (ps @ es)) \<subseteq> {payload}"
      by (simp_all add: post_payloads_append)
    then show ?thesis by blast
  qed
  show ?case
  proof (cases "posts w 0")
    case (Response status body)
    with more show ?thesis by (simp add: chat_attempts_response requests_post_def)
  next
    case RequestFailed
    with more show ?thesis by (simp add: chat_attempts_failed requests_post_def)
  next
    case ConnectionError
    then have p0: "posts w 0 = ConnectionError \<or> posts w 0 = Timeout" by simp
    show ?thesis
    proof (cases "attempt < max_retries c - 1")
      case last: False
      show ?thesis
        unfolding chat_attempts_last [OF more last p0]
        by (rule continue [of _ "[?p]"]) (simp_all add: requests_post_def)
    next
      case True
      show ?thesis
      proof (cases "0 \<le> retry_delay c")
        case delay: True
        show ?thesis
          unfolding chat_attempts_sleep [OF True delay p0]
          by (rule continue [of _ "[?p, Sleep (retry_delay c)]"]) simp_all
      next
        case False
        then have "retry_delay c < 0" by simp
        from chat_attempts_sleep_raises [OF True this p0]
        show ?thesis by (simp add: requests_post_def)
      qed
    qed
  next
    case Timeout
    then have p0: "posts w 0 = ConnectionError \<or> posts w 0 = Timeout" by simp
    show ?thesis
    proof (cases "attempt < max_retries c - 1")
      case last: False
      show ?thesis
        unfolding chat_attempts_last [OF more last p0]
        by (rule continue [of _ "[?p]"]) (simp_all add: requests_post_def)
    next
      case True
      show ?thesis
      proof (cases "0 \<le> retry_delay c")
        case delay: True
        show ?thesis
          unfolding chat_attempts_sleep [OF True delay p0]
          by (rule continue [of _ "[?p, Sleep (retry_delay c)]"]) simp_all
      next
        case False
        then have "retry_delay c < 0" by simp
        from chat_attempts_sleep_raises [OF True this p0]
        show ?thesis by (simp add: requests_post_def)
      qed
    qed
  qed
qed

lemma chat_attempts_prefix:
  "prefix (trace w) (trace (snd (chat_attempts c payload attempt w)))"
  using chat_attempts_payloads [of c payload attempt w] by (auto simp add: prefix_def)

lemma health_check_trace:
  "trace (snd (snd (health_check force c w))) = trace w \<or>
   trace (snd (snd (health_check force c w))) = trace w @ [Get (models_endpoint c) (health_timeout c)]"
  by (simp add: health_check_def time_time_def requests_get_def split: prod.splits reply.splits)

lemma health_check_forced_trace:
  "trace (snd (snd (health_check True c w))) = trace w @ [Get (models_endpoint c) (health_timeout c)]"
  by (simp add: health_check_def time_time_def requests_get_def split: prod.splits reply.splits)

lemma health_check_cached:
  assumes "last_health_check c = Some t" "t \<noteq> 0" "times w 0 - t < 30"
  shows "health_check False c w = (is_healthy c, c, snd (time_time w))"
  using assms by (simp add: health_check_def time_time_def cache_is_fresh_def)

text \<open>
  Claim C4. A call with \<^verbatim>\<open>force=False\<close>, made while \<^verbatim>\<open>_last_health_check\<close> holds a
  timestamp that is less than 30 seconds before the clock's reading, returns the cached
  \<^verbatim>\<open>_is_healthy\<close>, leaves the client unchanged, adds nothing to the trace and consumes
  no answer of the backend. The timestamp held is a reading of \<^verbatim>\<open>time.time()\<close>, the
  seconds since the epoch, and so is not \<^verbatim>\<open>0.0\<close>, the one number that the guard's truth
  value test takes for no timestamp. A call with \<^verbatim>\<open>force=True\<close> always adds exactly one
  event: the GET to the model-listing endpoint, with the health timeout.
\<close>

theorem health_check_cache_and_force:
  "(last_health_check c = Some t \<and> t \<noteq> 0 \<and> times w 0 - t < 30 \<longrightarrow>
      fst (health_check False c w) = is_healthy c
      \<and> fst (snd (health_check False c w)) = c
      \<and> trace (snd (snd (health_check False c w))) = trace w
      \<and> gets (snd (snd (health_check False c w))) = gets w)
   \<and> new_events w (snd (snd (health_check True c w)))
       = [Get (models_endpoint c) (health_timeout c)]"
  by (auto simp add: health_check_cached time_time_def health_check_forced_trace new_events_def)

theorem health_check_cache_and_force_witness:
  "last_health_check fresh_client = Some 1000
   \<and> (1000 :: real) \<noteq> 0
   \<and> times (example_world 1010 ConnectionError ConnectionError ReadFails) 0 - 1000 < 30
   \<and> fst (health_check False fresh_client
             (example_world 1010 ConnectionError ConnectionError ReadFails)) = True
   \<and> trace (snd (snd (health_check False fresh_client
             (example_world 1010 ConnectionError ConnectionError ReadFails)))) = []"
  using health_check_cache_and_force
    [of fresh_client 1000 "example_world 1010 ConnectionError ConnectionError ReadFails"]
  by (simp add: fresh_client_def example_client_def LMStudioClient_init_def example_world_def)

lemma chat_completion_unhealthy:
  "\<not> fst (health_check False c w) \<Longrightarrow>
   chat_completion prompt model temperature max_tokens system_prompt c w
     = (Inr PyNone, snd (health_check False c w))"
  by (cases "health_check False c w") (auto simp add: chat_completion_def)

lemma vision_completion_unhealthy:
  "\<not> fst (health_check False c w) \<Longrightarrow>
   vision_completion prompt image_base64 model temperature c w = (PyNone, snd (health_check False c w))"
  by (cases "health_check False c w") (auto simp add: vision_completion_def)

text \<open>
  Claim C5. Both completion calls begin with \<^verbatim>\<open>health_check(force=False)\<close>: the client
  they leave is the one the health check leaves, and the trace of the health check is a
  prefix of theirs. If the health check reports unhealthy, each returns \<^verbatim>\<open>None\<close> in the
  very state the health check left, in which no POST has been made.
\<close>

theorem completion_checks_health_first:
  "fst (snd (chat_completion prompt model temperature max_tokens system_prompt c w))
      = fst (snd (health_check False c w))
   \<and> prefix (trace (snd (snd (health_check False c w))))
        (trace (snd (snd (chat_completion prompt model temperature max_tokens system_prompt c w))))
   \<and> fst (snd (vision_completion vprompt image_base64 vmodel vtemperature c w))
      = fst (snd (health_check False c w))
   \<and> prefix (trace (snd (snd (health_check False c w))))
        (trace (snd (snd (vision_completion vprompt image_base64 vmodel vtemperature c w))))
   \<and> (\<not> fst (health_check False c w) \<longrightarrow>
        chat_completion prompt model temperature max_tokens system_prompt c w
          = (Inr PyNone, snd (health_check False c w))
        \<and> vision_completion vprompt image_base64 vmodel vtemperature c w
          = (PyNone, snd (health_check False c w))
        \<and> post_payloads (new_events w (snd (snd (health_check False c w)))) = [])"
proof -
  obtain ok c1 w1 where h: "health_check False c w = (ok, c1, w1)"
    by (cases "health_check False c w") 
  have a: "fst (snd (chat_completion prompt model temperature max_tokens system_prompt c w)) = c1"
    using h by (simp add: chat_completion_def Let_def split: prod.splits)
  have b: "prefix (trace w1)
        (trace (snd (snd (chat_completion prompt model temperature max_tokens system_prompt c w))))"
    using h chat_attempts_prefix [of w1 c1]
    by (auto simp add: chat_completion_def Let_def split: prod.splits) (metis snd_conv)
  have c: "fst (snd (vision_completion vprompt image_base64 vmodel vtemperature c w)) = c1"
    using h by (simp add: vision_completion_def Let_def split: prod.splits option.splits reply.splits)
  have d: "prefix (trace w1) (trace (snd (snd (vision_completion vprompt image_base64 vmodel vtemperature c w))))"
    using h by (simp add: vision_completion_def Let_def requests_post_def split: prod.splits option.splits reply.splits)
  have e: "post_payloads (new_events w (snd (snd (health_check False c w)))) = []"
    using health_check_trace [of False c w] by (auto simp add: new_events_def)
  show ?thesis
    using a b c d e h
    by (simp add: chat_completion_unhealthy vision_completion_unhealthy)
qed



theorem completion_checks_health_first_witness:
  "\<not> fst (health_check False example_client
            (example_world 1000 ConnectionError (Response 200 (Some (answer ''hi''))) (Frame ''QUJD'')))
   \<and> fst (chat_completion (PyStr ''hello'') None (7 / 10) 1000 None example_client
            (example_world 1000 ConnectionError (Response 200 (Some (answer ''hi''))) (Frame ''QUJD'')))
       = Inr PyNone
   \<and> fst (vision_completion (PyStr ''Describe what you see.'') ''QUJD'' None (2 / 10) example_client
            (example_world 1000 ConnectionError (Response 200 (Some (answer ''hi''))) (Frame ''QUJD'')))
       = PyNone
   \<and> post_payloads (trace (snd (snd (chat_completion (PyStr ''hello'') None (7 / 10) 1000 None
            example_client
            (example_world 1000 ConnectionError (Response 200 (Some (answer ''hi''))) (Frame ''QUJD''))))))
       = []"
proof -
  let ?w = "example_world 1000 ConnectionError (Response 200 (Some (answer ''hi''))) (Frame ''QUJD'')"
  have h: "health_check False example_client ?w
      = (False, example_client\<lparr>last_health_check := Some 1000, is_healthy := False\<rparr>,
         snd (snd (health_check False example_client ?w)))"
    by (simp add: example_client_def LMStudioClient_init_def example_world_def
        health_check_def time_time_def requests_get_def cache_is_fresh_def)
  have t: "trace (snd (snd (health_check False example_client ?w)))
      = [Get ''http://127.0.0.1:1234/v1/models'' 5]"
    by (simp add: example_client_def LMStudioClient_init_def example_world_def
        health_check_def time_time_def requests_get_def cache_is_fresh_def)
  have u: "\<not> fst (health_check False example_client ?w)"
    by (subst h) simp
  from completion_checks_health_first
    [of "PyStr ''hello''" None "7 / 10" 1000 None example_client ?w
        "PyStr ''Describe what you see.''" "''QUJD''" None "2 / 10"] u
  have "chat_completion (PyStr ''hello'') None (7 / 10) 1000 None example_client ?w
          = (Inr PyNone, snd (health_check False example_client ?w))
        \<and> vision_completion (PyStr ''Describe what you see.'') ''QUJD'' None (2 / 10)
            example_client ?w
          = (PyNone, snd (health_check False example_client ?w))"
    by blast
  with u t show ?thesis by simp
qed

lemma extract_answer: "extract_content (answer s) = Inr (PyStr s)"
  by (simp add: extract_content_def answer_def)

lemma negative_delay_raises:
  assumes healthy: "fst (health_check False c w)"
    and refused: "posts w 0 = ConnectionError \<or> posts w 0 = Timeout"
    and delay: "retry_delay c < 0" and several: "2 \<le> max_retries c"
  shows "fst (chat_completion prompt model temperature max_tokens system_prompt c w)
      = Inl ValueError"
proof -
  obtain ok c1 w1 where h: "health_check False c w = (ok, c1, w1)"
    by (cases "health_check False c w")
  with healthy have ok: "ok" by simp
  note cfg = health_check_config [OF h]
  from refused have r1: "posts w1 0 = ConnectionError \<or> posts w1 0 = Timeout"
    using health_check_posts [of False c w] h by simp
  from several cfg have m: "0 < max_retries c1 - 1" by simp
  from delay cfg have d: "retry_delay c1 < 0" by simp
  show ?thesis
    using h ok by (simp add: chat_completion_def Let_def chat_attempts_sleep_raises [OF m d r1])
qed

text \<open>
  Claim C1, as the code has it. The health check reported healthy, the backend refuses
  every connection, and the configured \<^verbatim>\<open>retry_delay\<close> is not negative (the
  specification's invariant of the configuration; a single configured attempt needs no
  wait, so then any delay will do). Then \<^verbatim>\<open>chat_completion\<close> returns \<^verbatim>\<open>None\<close> after
  exactly \<^verbatim>\<open>max_retries\<close> POSTs to the chat endpoint (none when \<^verbatim>\<open>max_retries\<close> is not
  positive), with one sleep of \<^verbatim>\<open>retry_delay\<close> between each two consecutive POSTs and
  none after the last. \<^verbatim>\<open>vision_completion\<close> has no retry loop: it returns \<^verbatim>\<open>None\<close>
  after exactly one POST and no sleep (after none at all when the configuration has no
  vision timeout).
\<close>

theorem refused_backend_attempts:
  assumes healthy: "fst (health_check False c w)"
    and refused: "\<forall>n. posts w n = ConnectionError"
    and delay: "0 \<le> retry_delay c \<or> max_retries c \<le> 1"
  shows "fst (chat_completion prompt model temperature max_tokens system_prompt c w) = Inr PyNone
    \<and> new_events (snd (snd (health_check False c w)))
         (snd (snd (chat_completion prompt model temperature max_tokens system_prompt c w)))
       = refused_trace
           (Post (chat_endpoint c)
              (chat_payload (model_or model (primary_model c)) (chat_messages prompt system_prompt)
                 temperature max_tokens)
              (timeout c))
           (Sleep (retry_delay c)) (nat (max_retries c))
    \<and> fst (vision_completion vprompt image_base64 vmodel vtemperature c w) = PyNone
    \<and> new_events (snd (snd (health_check False c w)))
         (snd (snd (vision_completion vprompt image_base64 vmodel vtemperature c w)))
       = (case vision_timeout c of
            None \<Rightarrow> []
          | Some tmo \<Rightarrow>
              [Post (chat_endpoint c)
                 (vision_payload (model_or vmodel (vision_model c)) vprompt image_base64 vtemperature)
                 tmo])"
proof -
  obtain ok c1 w1 where h: "health_check False c w = (ok, c1, w1)"
    by (cases "health_check False c w")
  with healthy have ok: "ok" by simp
  note cfg = health_check_config [OF h]
  from refused have r1: "\<forall>n. posts w1 n = ConnectionError"
    using health_check_posts [of False c w] h by simp
  from delay cfg have d1: "0 \<le> retry_delay c1 \<or> max_retries c1 \<le> 0 + 1" by simp
  note att = chat_attempts_refused [OF r1 d1]
  have chat: "chat_completion prompt model temperature max_tokens system_prompt c w
     = (fst (chat_attempts c1 (chat_payload (model_or model (primary_model c1))
                           (chat_messages prompt system_prompt) temperature max_tokens) 0 w1), c1,
        snd (chat_attempts c1 (chat_payload (model_or model (primary_model c1))
                           (chat_messages prompt system_prompt) temperature max_tokens) 0 w1))"
    using h ok by (simp add: chat_completion_def Let_def split: prod.splits)
  have vis: "vision_completion vprompt image_base64 vmodel vtemperature c w
     = (case vision_timeout c1 of None \<Rightarrow> (PyNone, c1, w1)
        | Some tmo \<Rightarrow> (PyNone, c1, snd (requests_post (chat_endpoint c1)
             (vision_payload (model_or vmodel (vision_model c1)) vprompt image_base64 vtemperature) tmo w1)))"
    using h ok r1
    by (simp add: vision_completion_def Let_def requests_post_def split: prod.splits option.splits)
  show ?thesis
    unfolding chat vis h using att cfg
    by (simp add: new_events_def requests_post_def split: option.splits)
qed

theorem refused_backend_attempts_witness:
  "fst (health_check False example_client
          (example_world 1000 models_reply ConnectionError (Frame ''QUJD'')))
   \<and> (\<forall>n. posts (example_world 1000 models_reply ConnectionError (Frame ''QUJD'')) n
          = ConnectionError)
   \<and> 0 \<le> retry_delay example_client
   \<and> fst (chat_completion (PyStr ''hello'') None (7 / 10) 1000 None example_client
            (example_world 1000 models_reply ConnectionError (Frame ''QUJD''))) = Inr PyNone
   \<and> new_events
        (snd (snd (health_check False example_client
          (example_world 1000 models_reply ConnectionError (Frame ''QUJD'')))))
        (snd (snd (chat_completion (PyStr ''hello'') None (7 / 10) 1000 None example_client
          (example_world 1000 models_reply ConnectionError (Frame ''QUJD'')))))
      = [Post ''http://127.0.0.1:1234/v1/chat/completions''
           (chat_payload ''kimi-vl-a3b-thinking-2506'' (chat_messages (PyStr ''hello'') None)
              (7 / 10) 1000) 120,
         Sleep 2,
         Post ''http://127.0.0.1:1234/v1/chat/completions''
           (chat_payload ''kimi-vl-a3b-thinking-2506'' (chat_messages (PyStr ''hello'') None)
              (7 / 10) 1000) 120,
         Sleep 2,
         Post ''http://127.0.0.1:1234/v1/chat/completions''
           (chat_payload ''kimi-vl-a3b-thinking-2506'' (chat_messages (PyStr ''hello'') None)
              (7 / 10) 1000) 120]"
proof -
  let ?w = "example_world 1000 models_reply ConnectionError (Frame ''QUJD'')"
  have healthy: "fst (health_check False example_client ?w)"
    by (simp add: example_client_def LMStudioClient_init_def example_world_def models_reply_def
        health_check_def time_time_def requests_get_def cache_is_fresh_def)
  have refused: "\<forall>n. posts ?w n = ConnectionError"
    by (simp add: example_world_def)
  have delay: "0 \<le> retry_delay example_client"
    by (simp add: example_client_def LMStudioClient_init_def)
  then have delay': "0 \<le> retry_delay example_client \<or> max_retries example_client \<le> 1" ..
  have three: "nat (max_retries example_client) = Suc (Suc (Suc 0))"
    by (simp add: example_client_def LMStudioClient_init_def)
  from refused_backend_attempts [OF healthy refused delay',
      of "PyStr ''hello''" None "7 / 10" 1000 None "PyStr ''Describe what you see.''" "''QUJD''"
         None "2 / 10"]
  show ?thesis
    using healthy refused delay unfolding three
    by (simp add: example_client_def LMStudioClient_init_def model_or_def)
qed

text \<open>
  Claim C1 as stated fails for a request of kind vision: with three attempts configured,
  a healthy health check and a backend that refuses every connection,
  \<^verbatim>\<open>vision_completion\<close> makes one POST, not three.
\<close>

theorem vision_completion_attempts_counterexample:
  "fst (health_check False example_client
          (example_world 1000 models_reply ConnectionError (Frame ''QUJD'')))
   \<and> posts (example_world 1000 models_reply ConnectionError (Frame ''QUJD'')) 0 = ConnectionError
   \<and> max_retries example_client = 3
   \<and> new_events
        (snd (snd (health_check False example_client
          (example_world 1000 models_reply ConnectionError (Frame ''QUJD'')))))
        (snd (snd (vision_completion (PyStr ''Describe what you see.'') ''QUJD'' None (2 / 10)
          example_client (example_world 1000 models_reply ConnectionError (Frame ''QUJD'')))))
      = [Post ''http://127.0.0.1:1234/v1/chat/completions''
           (vision_payload ''zai-org/glm-4.6v-flash'' (PyStr ''Describe what you see.'') ''QUJD''
              (2 / 10)) 60]"
  by (simp add: example_client_def LMStudioClient_init_def example_world_def models_reply_def
      health_check_def time_time_def requests_get_def cache_is_fresh_def vision_completion_def
      requests_post_def new_events_def model_or_def)

lemma chat_completion_answered:
  assumes healthy: "fst (health_check False c w)"
    and budget: "0 < max_retries c"
    and answered: "posts w 0 = Response status body"
  shows "chat_completion prompt model temperature max_tokens system_prompt c w
    = (Inr (read_response status body), fst (snd (health_check False c w)),
       snd (requests_post (chat_endpoint c)
              (chat_payload (model_or model (primary_model c)) (chat_messages prompt system_prompt)
                 temperature max_tokens)
              (timeout c) (snd (snd (health_check False c w)))))"
proof -
  obtain ok c1 w1 where h: "health_check False c w = (ok, c1, w1)"
    by (cases "health_check False c w")
  with healthy have ok: "ok" by simp
  note cfg = health_check_config [OF h]
  from answered have r1: "posts w1 0 = Response status body"
    using health_check_posts [of False c w] h by simp
  from budget cfg have b1: "0 < max_retries c1" by simp
  note att = chat_attempts_response [OF b1 r1]
  show ?thesis
    using h ok cfg by (simp add: chat_completion_def Let_def att)
qed

lemma read_response_none:
  "raise_for_status status \<or> no_content body \<Longrightarrow> read_response status body = PyNone"
  by (auto simp add: read_response_def no_content_def isl_def split: option.splits)

text \<open>
  Claim C3, as the code has it. The health check reported healthy, at least one attempt
  is configured, and the backend answers the first POST with a response. Then
  \<^verbatim>\<open>chat_completion\<close> makes exactly that one POST, whatever retry budget remains; and if
  the status is a client or server error (4xx or 5xx, what \<^verbatim>\<open>raise_for_status\<close> rejects)
  or the body has no \<^verbatim>\<open>choices[0].message.content\<close>, it returns \<^verbatim>\<open>None\<close>.
\<close>

theorem chat_completion_response_ends_loop:
  assumes healthy: "fst (health_check False c w)"
    and budget: "0 < max_retries c"
    and answered: "posts w 0 = Response status body"
  shows "new_events (snd (snd (health_check False c w)))
           (snd (snd (chat_completion prompt model temperature max_tokens system_prompt c w)))
         = [Post (chat_endpoint c)
              (chat_payload (model_or model (primary_model c)) (chat_messages prompt system_prompt)
                 temperature max_tokens)
              (timeout c)]
    \<and> (raise_for_status status \<or> no_content body \<longrightarrow>
          fst (chat_completion prompt model temperature max_tokens system_prompt c w) = Inr PyNone)"
  by (simp add: chat_completion_answered [OF assms] read_response_none new_events_def
      requests_post_def)

theorem chat_completion_response_ends_loop_witness:
  "fst (health_check False example_client
          (example_world 1000 models_reply (Response 404 None) (Frame ''QUJD'')))
   \<and> 0 < max_retries example_client
   \<and> posts (example_world 1000 models_reply (Response 404 None) (Frame ''QUJD'')) 0
       = Response 404 None
   \<and> raise_for_status 404
   \<and> fst (chat_completion (PyStr ''hello'') None (7 / 10) 1000 None example_client
            (example_world 1000 models_reply (Response 404 None) (Frame ''QUJD''))) = Inr PyNone
   \<and> new_events
        (snd (snd (health_check False example_client
          (example_world 1000 models_reply (Response 404 None) (Frame ''QUJD'')))))
        (snd (snd (chat_completion (PyStr ''hello'') None (7 / 10) 1000 None example_client
          (example_world 1000 models_reply (Response 404 None) (Frame ''QUJD'')))))
      = [Post ''http://127.0.0.1:1234/v1/chat/completions''
           (chat_payload ''kimi-vl-a3b-thinking-2506'' (chat_messages (PyStr ''hello'') None)
              (7 / 10) 1000) 120]"
proof -
  let ?w = "example_world 1000 models_reply (Response 404 None) (Frame ''QUJD'')"
  have healthy: "fst (health_check False example_client ?w)"
    by (simp add: example_client_def LMStudioClient_init_def example_world_def models_reply_def
        health_check_def time_time_def requests_get_def cache_is_fresh_def)
  have budget: "0 < max_retries example_client"
    by (simp add: example_client_def LMStudioClient_init_def)
  have answered: "posts ?w 0 = Response 404 None"
    by (simp add: example_world_def)
  have err: "raise_for_status 404"
    by (simp add: raise_for_status_def)
  from chat_completion_response_ends_loop [OF healthy budget answered,
      of "PyStr ''hello''" None "7 / 10" 1000 None]
  show ?thesis
    using healthy budget answered err
    by (simp add: example_client_def LMStudioClient_init_def model_or_def)
qed

text \<open>
  Claim C3 as stated fails for a status that is not 2xx and not an error either: the
  backend answers the first POST with status 302 and a well-formed body, and
  \<^verbatim>\<open>chat_completion\<close> returns the content of the body, not \<^verbatim>\<open>None\<close>.
\<close>

theorem chat_completion_redirect_counterexample:
  "fst (health_check False example_client
          (example_world 1000 models_reply (Response 302 (Some (answer ''hi''))) (Frame ''QUJD'')))
   \<and> posts (example_world 1000 models_reply (Response 302 (Some (answer ''hi''))) (Frame ''QUJD'')) 0
       = Response 302 (Some (answer ''hi''))
   \<and> fst (chat_completion (PyStr ''hello'') None (7 / 10) 1000 None example_client
            (example_world 1000 models_reply (Response 302 (Some (answer ''hi''))) (Frame ''QUJD'')))
       = Inr (PyStr ''hi'')"
proof -
  let ?w = "example_world 1000 models_reply (Response 302 (Some (answer ''hi''))) (Frame ''QUJD'')"
  have healthy: "fst (health_check False example_client ?w)"
    by (simp add: example_client_def LMStudioClient_init_def example_world_def models_reply_def
        health_check_def time_time_def requests_get_def cache_is_fresh_def)
  have budget: "0 < max_retries example_client"
    by (simp add: example_client_def LMStudioClient_init_def)
  have answered: "posts ?w 0 = Response 302 (Some (answer ''hi''))"
    by (simp add: example_world_def)
  have "read_response 302 (Some (answer ''hi'')) = PyStr ''hi''"
    by (simp add: read_response_def raise_for_status_def extract_answer)
  with healthy answered show ?thesis
    by (simp add: chat_completion_answered [OF healthy budget answered])
qed

lemma chat_completion_payloads:
  "set (post_payloads (new_events w
          (snd (snd (chat_completion prompt model temperature max_tokens system_prompt c w)))))
   \<subseteq> {chat_payload (model_or model (primary_model c)) (chat_messages prompt system_prompt)
         temperature max_tokens}"
proof -
  obtain ok c1 w1 where h: "health_check False c w = (ok, c1, w1)"
    by (cases "health_check False c w")
  note cfg = health_check_config [OF h]
  have t1: "\<exists>gs. trace w1 = trace w @ gs \<and> post_payloads gs = []"
    using health_check_trace [of False c w] h by auto
  then obtain gs where gs: "trace w1 = trace w @ gs" "post_payloads gs = []" by blast
  show ?thesis
  proof (cases ok)
    case False
    with h gs show ?thesis by (simp add: chat_completion_def new_events_def)
  next
    case True
    let ?p = "chat_payload (model_or model (primary_model c)) (chat_messages prompt system_prompt)
         temperature max_tokens"
    from chat_attempts_payloads [of c1 ?p 0 w1]
    obtain es where es: "trace (snd (chat_attempts c1 ?p 0 w1)) = trace w1 @ es"
      "set (post_payloads es) \<subseteq> {?p}" by blast
    have "chat_completion prompt model temperature max_tokens system_prompt c w
        = (fst (chat_attempts c1 ?p 0 w1), c1, snd (chat_attempts c1 ?p 0 w1))"
      using h True cfg by (simp add: chat_completion_def Let_def split: prod.splits)
    with es gs show ?thesis
      by (simp add: new_events_def post_payloads_append)
  qed
qed

lemma vision_completion_payloads:
  "set (post_payloads (new_events w
          (snd (snd (vision_completion prompt image_base64 model temperature c w)))))
   \<subseteq> {vision_payload (model_or model (vision_model c)) prompt image_base64 temperature}"
proof -
  obtain ok c1 w1 where h: "health_check False c w = (ok, c1, w1)"
    by (cases "health_check False c w")
  note cfg = health_check_config [OF h]
  have t1: "\<exists>gs. trace w1 = trace w @ gs \<and> post_payloads gs = []"
    using health_check_trace [of False c w] h by auto
  then obtain gs where gs: "trace w1 = trace w @ gs" "post_payloads gs = []" by blast
  show ?thesis
    using h gs cfg
    by (auto simp add: vision_completion_def Let_def new_events_def requests_post_def
        post_payloads_append split: option.splits reply.splits)
qed

text \<open>
  Claim C2, as the code has it. Every POST that \<^verbatim>\<open>chat_completion\<close> makes carries a
  payload with exactly the fields model, messages, temperature, max\_tokens and stream,
  where stream is false. Every POST that \<^verbatim>\<open>vision_completion\<close> makes carries a payload
  with exactly the fields model, messages and temperature (no max\_tokens, no stream),
  whose messages are one user message with a text part and an image part, the image as
  the data URL \<^verbatim>\<open>data:image/jpeg;base64,\<close> followed by the base64 text.
\<close>

theorem completion_payload_fields:
  "(\<forall>p \<in> set (post_payloads (new_events w
        (snd (snd (chat_completion prompt model temperature max_tokens system_prompt c w))))).
      dict_keys p = [''model'', ''messages'', ''temperature'', ''max_tokens'', ''stream'']
      \<and> py_getitem p ''model'' = Inr (PyStr (model_or model (primary_model c)))
      \<and> py_getitem p ''messages'' = Inr (PyList (chat_messages prompt system_prompt))
      \<and> py_getitem p ''temperature'' = Inr (PyFloat temperature)
      \<and> py_getitem p ''max_tokens'' = Inr (PyInt max_tokens)
      \<and> py_getitem p ''stream'' = Inr (PyBool False))
   \<and> (\<forall>p \<in> set (post_payloads (new_events w
        (snd (snd (vision_completion vprompt image_base64 vmodel vtemperature c w))))).
      dict_keys p = [''model'', ''messages'', ''temperature'']
      \<and> py_getitem p ''model'' = Inr (PyStr (model_or vmodel (vision_model c)))
      \<and> py_getitem p ''messages'' = Inr (PyList
           [PyDict [(''role'', PyStr ''user''),
                    (''content'', PyList
                       [PyDict [(''type'', PyStr ''text''), (''text'', vprompt)],
                        PyDict [(''type'', PyStr ''image_url''),
                                (''image_url'', PyDict
                                   [(''url'', PyStr (''data:image/jpeg;base64,'' @ image_base64))])]])]])
      \<and> py_getitem p ''temperature'' = Inr (PyFloat vtemperature))"
proof -
  have a: "p = chat_payload (model_or model (primary_model c)) (chat_messages prompt system_prompt)
         temperature max_tokens"
    if "p \<in> set (post_payloads (new_events w
        (snd (snd (chat_completion prompt model temperature max_tokens system_prompt c w)))))" for p
    using that chat_completion_payloads [of w prompt model temperature max_tokens system_prompt c]
    by blast
  have b: "p = vision_payload (model_or vmodel (vision_model c)) vprompt image_base64 vtemperature"
    if "p \<in> set (post_payloads (new_events w
        (snd (snd (vision_completion vprompt image_base64 vmodel vtemperature c w)))))" for p
    using that vision_completion_payloads [of w vprompt image_base64 vmodel vtemperature c]
    by blast
  show ?thesis
  proof (intro conjI ballI)
    fix p assume "p \<in> set (post_payloads (new_events w
        (snd (snd (chat_completion prompt model temperature max_tokens system_prompt c w)))))"
    then have p: "p = chat_payload (model_or model (primary_model c))
        (chat_messages prompt system_prompt) temperature max_tokens" by (rule a)
    show "dict_keys p = [''model'', ''messages'', ''temperature'', ''max_tokens'', ''stream'']"
      "py_getitem p ''model'' = Inr (PyStr (model_or model (primary_model c)))"
      "py_getitem p ''messages'' = Inr (PyList (chat_messages prompt system_prompt))"
      "py_getitem p ''temperature'' = Inr (PyFloat temperature)"
      "py_getitem p ''max_tokens'' = Inr (PyInt max_tokens)"
      "py_getitem p ''stream'' = Inr (PyBool False)"
      by (simp_all add: p chat_payload_def dict_keys_def)
  next
    fix p assume "p \<in> set (post_payloads (new_events w
        (snd (snd (vision_completion vprompt image_base64 vmodel vtemperature c w)))))"
    then have p: "p = vision_payload (model_or vmodel (vision_model c)) vprompt image_base64
        vtemperature" by (rule b)
    show "dict_keys p = [''model'', ''messages'', ''temperature'']"
      "py_getitem p ''model'' = Inr (PyStr (model_or vmodel (vision_model c)))"
      "py_getitem p ''messages'' = Inr (PyList
           [PyDict [(''role'', PyStr ''user''),
                    (''content'', PyList
                       [PyDict [(''type'', PyStr ''text''), (''text'', vprompt)],
                        PyDict [(''type'', PyStr ''image_url''),
                                (''image_url'', PyDict
                                   [(''url'', PyStr (''data:image/jpeg;base64,'' @ image_base64))])]])]])"
      "py_getitem p ''temperature'' = Inr (PyFloat vtemperature)"
      by (simp_all add: p vision_payload_def dict_keys_def)
  qed
qed

theorem completion_payload_fields_witness:
  "post_payloads (new_events (example_world 1000 models_reply (Response 200 (Some (answer ''hi''))) (Frame ''QUJD''))
      (snd (snd (chat_completion (PyStr ''hello'') None (7 / 10) 1000 (Some ''Be warm.'') example_client
         (example_world 1000 models_reply (Response 200 (Some (answer ''hi''))) (Frame ''QUJD''))))))
     = [chat_payload ''kimi-vl-a3b-thinking-2506''
          [PyDict [(''role'', PyStr ''system''), (''content'', PyStr ''Be warm.'')],
           PyDict [(''role'', PyStr ''user''), (''content'', PyStr ''hello'')]] (7 / 10) 1000]
   \<and> py_getitem (chat_payload ''kimi-vl-a3b-thinking-2506''
          [PyDict [(''role'', PyStr ''system''), (''content'', PyStr ''Be warm.'')],
           PyDict [(''role'', PyStr ''user''), (''content'', PyStr ''hello'')]] (7 / 10) 1000) ''stream''
       = Inr (PyBool False)
   \<and> py_getitem (chat_payload ''kimi-vl-a3b-thinking-2506''
          [PyDict [(''role'', PyStr ''system''), (''content'', PyStr ''Be warm.'')],
           PyDict [(''role'', PyStr ''user''), (''content'', PyStr ''hello'')]] (7 / 10) 1000) ''max_tokens''
       = Inr (PyInt 1000)"
proof -
  let ?w = "example_world 1000 models_reply (Response 200 (Some (answer ''hi''))) (Frame ''QUJD'')"
  let ?p = "chat_payload ''kimi-vl-a3b-thinking-2506''
          [PyDict [(''role'', PyStr ''system''), (''content'', PyStr ''Be warm.'')],
           PyDict [(''role'', PyStr ''user''), (''content'', PyStr ''hello'')]] (7 / 10) 1000"
  have healthy: "fst (health_check False example_client ?w)"
    by (simp add: example_client_def LMStudioClient_init_def example_world_def models_reply_def
        health_check_def time_time_def requests_get_def cache_is_fresh_def)
  have budget: "0 < max_retries example_client"
    by (simp add: example_client_def LMStudioClient_init_def)
  have answered: "posts ?w 0 = Response 200 (Some (answer ''hi''))"
    by (simp add: example_world_def)
  have sent: "post_payloads (new_events ?w
      (snd (snd (chat_completion (PyStr ''hello'') None (7 / 10) 1000 (Some ''Be warm.'')
         example_client ?w)))) = [?p]"
    by (simp add: chat_completion_answered [OF healthy budget answered])
      (simp add: example_client_def LMStudioClient_init_def example_world_def models_reply_def
        health_check_def time_time_def requests_get_def cache_is_fresh_def requests_post_def
        new_events_def model_or_def chat_messages_def)
  from completion_payload_fields
    [of ?w "PyStr ''hello''" None "7 / 10" 1000 "Some ''Be warm.''" example_client
        "PyStr ''Describe what you see.''" "''QUJD''" None "2 / 10"]
  have "\<forall>p \<in> set (post_payloads (new_events ?w
        (snd (snd (chat_completion (PyStr ''hello'') None (7 / 10) 1000 (Some ''Be warm.'')
           example_client ?w))))).
      py_getitem p ''max_tokens'' = Inr (PyInt 1000) \<and> py_getitem p ''stream'' = Inr (PyBool False)"
    by blast
  then have "py_getitem ?p ''max_tokens'' = Inr (PyInt 1000)
      \<and> py_getitem ?p ''stream'' = Inr (PyBool False)"
    unfolding sent by simp
  with sent show ?thesis by blast
qed

text \<open>
  Claim C2 as stated fails for a request of kind vision: the payload that
  \<^verbatim>\<open>vision_completion\<close> posts has no \<^verbatim>\<open>max_tokens\<close> and no \<^verbatim>\<open>stream\<close> field.
\<close>

theorem vision_payload_fields_counterexample:
  "post_payloads (new_events (example_world 1000 models_reply (Response 200 (Some (answer ''hi''))) (Frame ''QUJD''))
      (snd (snd (vision_completion (PyStr ''Describe what you see.'') ''QUJD'' None (2 / 10)
         example_client
         (example_world 1000 models_reply (Response 200 (Some (answer ''hi''))) (Frame ''QUJD''))))))
     = [vision_payload ''zai-org/glm-4.6v-flash'' (PyStr ''Describe what you see.'') ''QUJD'' (2 / 10)]
   \<and> py_getitem (vision_payload ''zai-org/glm-4.6v-flash'' (PyStr ''Describe what you see.'')
        ''QUJD'' (2 / 10)) ''max_tokens'' = Inl KeyError
   \<and> py_getitem (vision_payload ''zai-org/glm-4.6v-flash'' (PyStr ''Describe what you see.'')
        ''QUJD'' (2 / 10)) ''stream'' = Inl KeyError"
  by (simp add: example_client_def LMStudioClient_init_def example_world_def models_reply_def
      health_check_def time_time_def requests_get_def cache_is_fresh_def vision_completion_def
      requests_post_def new_events_def model_or_def vision_payload_def)

section \<open>Properties of the history\<close>

lemma map_of_dict_set_same: "map_of (dict_set k v kvs) k = Some v"
  by (induction kvs) auto

lemma map_of_dict_set_other: "k' \<noteq> k \<Longrightarrow> map_of (dict_set k v kvs) k' = map_of kvs k'"
  by (induction kvs) auto

lemma ensure_key_dict:
  "ensure_key k dflt (PyDict kvs)
     = Inr (PyDict (if map_of kvs k \<noteq> None then kvs else dict_set k dflt kvs))"
  by (simp add: ensure_key_def)

lemma load_memory_dict:
  "map_of kvs ''recent_memory'' = Some v \<Longrightarrow>
   \<exists>kvs'. load_memory (Json (PyDict kvs)) = Inr (PyDict kvs')
        \<and> map_of kvs' ''recent_memory'' = Some v"
  by (simp add: load_memory_def ensure_key_dict map_of_dict_set_other)

lemma holds_history_fresh:
  "holds_history Missing []" "holds_history Invalid []" "holds_history (Json empty_memory) []"
  by (simp_all add: holds_history_def load_memory_def empty_memory_def ensure_key_dict)

lemma holds_history_recent: "holds_history f es \<Longrightarrow> recent_memory f = es"
  by (auto simp add: holds_history_def recent_memory_def split: sum.splits pyval.splits)

lemma save_context_holds:
  assumes "holds_history f es"
  shows "\<exists>f'. save_context entry f = Inr f'
           \<and> holds_history f' (drop (length (es @ [entry]) - 100) (es @ [entry]))"
proof -
  from assms obtain kvs where l: "load_memory f = Inr (PyDict kvs)"
    and r: "map_of kvs ''recent_memory'' = Some (PyList es)"
    by (auto simp add: holds_history_def split: sum.splits pyval.splits)
  let ?kept = "drop (length (es @ [entry]) - 100) (es @ [entry])"
  have kept: "(if 100 < length (es @ [entry])
                 then drop (length (es @ [entry]) - 100) (es @ [entry]) else es @ [entry]) = ?kept"
    by simp
  have s: "save_context entry f = Inr (Json (PyDict (dict_set ''recent_memory'' (PyList ?kept) kvs)))"
    unfolding save_context_def l using r kept by (simp add: Let_def del: drop_append length_append)
  from load_memory_dict [of "dict_set ''recent_memory'' (PyList ?kept) kvs" "PyList ?kept"]
  have "holds_history (Json (PyDict (dict_set ''recent_memory'' (PyList ?kept) kvs))) ?kept"
    by (auto simp add: holds_history_def map_of_dict_set_same)
  with s show ?thesis by blast
qed

lemma keep_step:
  assumes "length es \<le> 100"
  shows "drop (length (drop (length (es @ [entry]) - 100) (es @ [entry]) @ entries) - 100)
           (drop (length (es @ [entry]) - 100) (es @ [entry]) @ entries)
       = drop (length (es @ entry # entries) - 100) (es @ entry # entries)"
proof (cases "length es = 100")
  case True
  then have "drop (length (es @ [entry]) - 100) (es @ [entry]) @ entries
      = drop 1 (es @ entry # entries)" by simp
  moreover have "length (drop 1 (es @ entry # entries)) - 100 + 1 = length (es @ entry # entries) - 100"
    using True by simp
  ultimately show ?thesis
    by (metis drop_drop)
next
  case False
  with assms have "length (es @ [entry]) - 100 = 0" by simp
  then show ?thesis by simp
qed

lemma save_all_holds:
  "holds_history f es \<Longrightarrow> length es \<le> 100 \<Longrightarrow>
   \<exists>f'. save_all entries f = Inr f'
        \<and> holds_history f' (drop (length (es @ entries) - 100) (es @ entries))"
proof (induction entries arbitrary: f es)
  case Nil
  then show ?case by simp
next
  case (Cons entry entries)
  let ?kept = "drop (length (es @ [entry]) - 100) (es @ [entry])"
  from save_context_holds [OF Cons.prems(1), of entry]
  obtain f1 where f1: "save_context entry f = Inr f1" "holds_history f1 ?kept" by blast
  have len: "length ?kept \<le> 100" using Cons.prems(2) by simp
  from Cons.IH [OF f1(2) len]
  obtain f' where f': "save_all entries f1 = Inr f'"
    "holds_history f' (drop (length (?kept @ entries) - 100) (?kept @ entries))" by blast
  from f'(2) have "holds_history f' (drop (length (es @ entry # entries) - 100) (es @ entry # entries))"
    by (simp only: keep_step [OF Cons.prems(2)])
  with f1(1) f'(1) show ?case by simp
qed

lemma retains_from_empty:
  assumes "holds_history f0 []"
  shows "retains_last_100 f0 entries"
proof -
  from save_all_holds [OF assms, of entries]
  obtain f where f: "save_all entries f0 = Inr f"
    "holds_history f (drop (length entries - 100) entries)" by auto
  from f(2) have "recent_memory f = drop (length entries - 100) entries"
    by (rule holds_history_recent)
  with f(1) show ?thesis by (auto simp add: retains_last_100_def)
qed

text \<open>
  Claim C8. For every sequence of appends with \<^verbatim>\<open>save_context\<close> that starts from an empty
  history (the file is missing, is not JSON, or holds the empty structure), every append
  succeeds and the retained list is exactly the most recent \<open>min N 100\<close> of the \<open>N\<close>
  entries, oldest first; so it never holds more than 100, and 150 appends leave the last
  100 in order.
\<close>

theorem history_keeps_last_100:
  "retains_last_100 Missing entries
   \<and> retains_last_100 Invalid entries
   \<and> retains_last_100 (Json empty_memory) entries"
  by (simp add: retains_from_empty holds_history_fresh)

theorem history_keeps_last_100_witness:
  "retains_last_100 Missing [PyStr ''first'', PyStr ''second'', PyStr ''third'']
   \<and> recent_memory (Json (PyDict [(''recent_memory'', PyList [PyStr ''first'']),
                                 (''known_intents'', PyDict [])]))
       = [PyStr ''first'']"
  using history_keeps_last_100 [of "[PyStr ''first'', PyStr ''second'', PyStr ''third'']"]
  by (simp add: recent_memory_def load_memory_def ensure_key_def)

section \<open>Properties of the route\<close>

lemma extract_prompt_none:
  "yields_no_prompt kvs \<Longrightarrow> \<exists>p. extract_prompt (PyDict kvs) = Inr p \<and> \<not> truthy p"
  by (auto simp add: yields_no_prompt_def extract_prompt_def split: pyval.splits)

text \<open>
  Claim C10, as the code has it. For every request whose body is a JSON object that
  yields no prompt (no truthy \<^verbatim>\<open>prompt\<close>, no truthy \<^verbatim>\<open>input\<close>, and \<^verbatim>\<open>messages\<close>
  missing, falsy, or a list whose last element is an object without truthy
  \<^verbatim>\<open>content\<close>), the route answers \<^verbatim>\<open>{"error": "No input provided"}\<close> with status 400 and
  leaves the whole state as it was: no handler ran, nothing was appended to the history,
  and the answer does not depend on the intent matcher.
\<close>

theorem no_input_bad_request:
  "yields_no_prompt kvs \<Longrightarrow>
   chat_completions d (Some (PyDict kvs)) sv
     = ((PyDict [(''error'', PyStr ''No input provided'')], 400), sv)"
proof -
  assume "yields_no_prompt kvs"
  then obtain p where "extract_prompt (PyDict kvs) = Inr p" "\<not> truthy p"
    using extract_prompt_none by blast
  then show ?thesis
    by (simp add: chat_completions_def chat_completions_try_def)
qed

theorem no_input_bad_request_witness:
  "yields_no_prompt [(''messages'', PyList [PyDict [(''role'', PyStr ''user'')]])]
   \<and> fst (chat_completions example_deps
            (Some (PyDict [(''messages'', PyList [PyDict [(''role'', PyStr ''user'')]])]))
            (example_server (example_world 1000 models_reply ConnectionError ReadFails)))
       = (PyDict [(''error'', PyStr ''No input provided'')], 400)"
proof -
  have y: "yields_no_prompt [(''messages'', PyList [PyDict [(''role'', PyStr ''user'')]])]"
    by (simp add: yields_no_prompt_def dict_get_def)
  from no_input_bad_request [OF y, of example_deps
      "example_server (example_world 1000 models_reply ConnectionError ReadFails)"] y
  show ?thesis by simp
qed

text \<open>
  Claim C10 as stated fails for a body that yields no prompt because its last message is
  not an object: \<^verbatim>\<open>{"messages": [42]}\<close> has no \<^verbatim>\<open>prompt\<close>, no \<^verbatim>\<open>input\<close> and no last
  message providing content, and the route answers with status 500, not 400.
\<close>

theorem malformed_message_counterexample:
  "fst (chat_completions example_deps (Some (PyDict [(''messages'', PyList [PyInt 42])]))
          (example_server (example_world 1000 models_reply ConnectionError ReadFails)))
     = (PyDict [(''error'', PyStr ''AttributeError''), (''type'', PyStr ''server_error'')], 500)"
  by (simp add: chat_completions_def chat_completions_try_def extract_prompt_def dict_get_def
      example_deps_def)

lemma forward_to_llm_unhealthy:
  "\<not> fst (health_check False (lm_client sv) (io sv)) \<Longrightarrow>
   forward_to_llm d prompt linked_user sv
     = (Inr (PyStr apology),
        sv\<lparr>lm_client := fst (snd (health_check False (lm_client sv) (io sv))),
           io := snd (snd (health_check False (lm_client sv) (io sv)))\<rparr>)"
  by (cases "health_check False (lm_client sv) (io sv)") (auto simp add: forward_to_llm_def)

lemma extract_prompt_dict:
  "extract_prompt body = Inr p \<Longrightarrow> \<exists>kvs. body = PyDict kvs"
  by (cases body) (auto simp add: extract_prompt_def)

text \<open>
  The unhealthy path on a history file that \<^verbatim>\<open>save_context\<close> can extend (its own
  writes keep it so). The request carries a non-empty text, the intent matcher finds no
  intent and the health check reports unhealthy. Then the route answers with status 200
  and the fixed apology string as the response text, and no POST was made: the only call
  to the backend is the health check's.
\<close>

lemma unhealthy_apology:
  assumes request: "extract_prompt body = Inr (PyStr p)" "p \<noteq> []"
    and no_intent: "match_intent d (PyStr p) = Inr None"
    and unhealthy: "\<not> fst (health_check False (lm_client sv) (io sv))"
    and history: "holds_history (memory_file sv) es"
  shows "snd (fst (chat_completions d (Some body) sv)) = 200
    \<and> response_content (fst (fst (chat_completions d (Some body) sv))) = Inr (PyStr apology)
    \<and> post_payloads (new_events (io sv) (io (snd (chat_completions d (Some body) sv)))) = []
    \<and> lm_client (snd (chat_completions d (Some body) sv))
        = fst (snd (health_check False (lm_client sv) (io sv)))"
proof -
  from request(1) obtain kvs where body: "body = PyDict kvs"
    using extract_prompt_dict by blast
  let ?user = "dict_get kvs ''linked_user'' (dict_get (lana_manifest d) ''linked_user'' (PyStr ''unknown''))"
  let ?entry = "PyDict [(''user'', ?user), (''prompt'', PyStr p), (''response'', PyStr apology),
                      (''intent'', PyNone)]"
  let ?sv1 = "sv\<lparr>lm_client := fst (snd (health_check False (lm_client sv) (io sv))),
           io := snd (snd (health_check False (lm_client sv) (io sv)))\<rparr>"
  from save_context_holds [OF history, of ?entry]
  obtain f where f: "save_context ?entry (memory_file sv) = Inr f" by blast
  have d: "dispatch d (PyStr p) ?user None sv = (Inr (PyStr apology), ?sv1)"
    by (simp add: dispatch_def forward_to_llm_unhealthy [OF unhealthy])
  have t: "chat_completions_try d (Some body) sv
    = (Inr (PyDict
               [(''id'', PyStr ''lana-local''),
                (''object'', PyStr ''chat.completion''),
                (''model'', PyStr (primary_model (lm_client ?sv1))),
                (''choices'', PyList
                   [PyDict [(''index'', PyInt 0),
                            (''message'', PyDict [(''role'', PyStr ''assistant''),
                                                  (''content'', PyStr apology)]),
                            (''finish_reason'', PyStr ''stop'')]]),
                (''usage'', PyDict
                   [(''prompt_tokens'', PyInt (int (length (split_from [] p)))),
                    (''completion_tokens'', PyInt (int (length (split_from [] apology)))),
                    (''total_tokens'', PyInt (int (length (split_from [] p) + length (split_from [] apology))))])],
              200),
         ?sv1\<lparr>memory_file := f\<rparr>)"
    using request no_intent f d
    by (simp add: chat_completions_try_def body)
  have e: "post_payloads (new_events (io sv) (snd (snd (health_check False (lm_client sv) (io sv))))) = []"
    using health_check_trace [of False "lm_client sv" "io sv"] by (auto simp add: new_events_def)
  show ?thesis
    using e by (simp add: chat_completions_def t response_content_def extract_content_def)
qed

text \<open>
  Claim C7, where the code departs from it. The history file holds
  \<^verbatim>\<open>{"recent_memory": null, "known_intents": {}}\<close>. The block of \<^verbatim>\<open>load_memory\<close> that
  its comment calls "Ensure structure" adds a key only when it is missing, so the null
  stays, \<^verbatim>\<open>append\<close> raises in \<^verbatim>\<open>save_context\<close>, and the route answers with status 500
  and the text of the exception instead of the apology. The request carries a text, no
  intent matches, the health check reports unhealthy and no POST is made, as the claim
  supposes.
\<close>

theorem unhealthy_apology_null_history:
  "extract_prompt (PyDict [(''prompt'', PyStr ''What is stoicism?'')])
     = Inr (PyStr ''What is stoicism?'')
   \<and> match_intent example_deps (PyStr ''What is stoicism?'') = Inr None
   \<and> fst (health_check False example_client
            (example_world 1000 ConnectionError ConnectionError ReadFails)) = False
   \<and> load_memory null_history
       = Inr (PyDict [(''recent_memory'', PyNone), (''known_intents'', PyDict [])])
   \<and> fst (chat_completions example_deps
            (Some (PyDict [(''prompt'', PyStr ''What is stoicism?'')]))
            ((example_server (example_world 1000 ConnectionError ConnectionError ReadFails))
               \<lparr>memory_file := null_history\<rparr>))
       = (PyDict [(''error'', PyStr ''AttributeError''), (''type'', PyStr ''server_error'')], 500)
   \<and> post_payloads (trace (io (snd (chat_completions example_deps
            (Some (PyDict [(''prompt'', PyStr ''What is stoicism?'')]))
            ((example_server (example_world 1000 ConnectionError ConnectionError ReadFails))
               \<lparr>memory_file := null_history\<rparr>))))) = []"
proof -
  let ?sv = "(example_server (example_world 1000 ConnectionError ConnectionError ReadFails))
               \<lparr>memory_file := null_history\<rparr>"
  let ?body = "PyDict [(''prompt'', PyStr ''What is stoicism?'')]"
  have a: "extract_prompt ?body = Inr (PyStr ''What is stoicism?'')"
    by (simp add: extract_prompt_def dict_get_def)
  have b: "match_intent example_deps (PyStr ''What is stoicism?'') = Inr None"
    by (simp add: example_deps_def)
  have c: "fst (health_check False example_client
            (example_world 1000 ConnectionError ConnectionError ReadFails)) = False"
    by (simp add: example_client_def LMStudioClient_init_def example_world_def
        health_check_def time_time_def requests_get_def cache_is_fresh_def)
  have d: "load_memory null_history
       = Inr (PyDict [(''recent_memory'', PyNone), (''known_intents'', PyDict [])])"
    by (simp add: null_history_def load_memory_def ensure_key_def)
  have u: "\<not> fst (health_check False (lm_client ?sv) (io ?sv))"
    using c by (simp add: example_server_def)
  have s: "save_context entry null_history = Inl AttributeError" for entry
    by (simp add: save_context_def d)
  have t: "chat_completions_try example_deps (Some ?body) ?sv
      = (Inl AttributeError,
         ?sv\<lparr>lm_client := fst (snd (health_check False (lm_client ?sv) (io ?sv))),
              io := snd (snd (health_check False (lm_client ?sv) (io ?sv)))\<rparr>)"
    using a b
    by (simp add: chat_completions_try_def dispatch_def forward_to_llm_unhealthy [OF u] s)
  have e: "post_payloads (trace (snd (snd (health_check False (lm_client ?sv) (io ?sv))))) = []"
    using health_check_trace [of False "lm_client ?sv" "io ?sv"]
    by (auto simp add: example_server_def example_world_def)
  have r: "fst (chat_completions example_deps (Some ?body) ?sv)
       = (PyDict [(''error'', PyStr ''AttributeError''), (''type'', PyStr ''server_error'')], 500)"
    by (simp add: chat_completions_def t) (simp add: example_deps_def)
  have p: "post_payloads (trace (io (snd (chat_completions example_deps (Some ?body) ?sv)))) = []"
    using e by (simp add: chat_completions_def t)
  from a b c d r p show ?thesis by blast
qed

section \<open>Properties of the vision pipeline\<close>

lemma health_check_extends:
  "prefix xs (trace w) \<Longrightarrow> prefix xs (trace (snd (snd (health_check force c w))))"
  using health_check_trace [of force c w] by (auto simp add: prefix_def)

lemma vision_completion_extends:
  "prefix xs (trace w) \<Longrightarrow>
   prefix xs (trace (snd (snd (vision_completion prompt image_base64 model temperature c w))))"
proof -
  assume xs: "prefix xs (trace w)"
  obtain ok c1 w1 where h: "health_check False c w = (ok, c1, w1)"
    by (cases "health_check False c w")
  from health_check_extends [OF xs, of False c] h have "prefix xs (trace w1)" by simp
  then show ?thesis
    using h
    by (auto simp add: vision_completion_def Let_def requests_post_def prefix_def
        split: option.splits reply.splits)
qed

lemma update_vision_state_trace:
  "trace (snd (update_vision_state i a r vs w))
     = trace w @ [Publish (case i of None \<Rightarrow> intent vs | Some x \<Rightarrow> Some x)
                          (case a of None \<Rightarrow> active vs | Some x \<Rightarrow> x)
                          (case r of None \<Rightarrow> result vs | Some x \<Rightarrow> Some x)]"
  by (simp add: update_vision_state_def time_time_def Let_def)

lemma update_vision_state_fields:
  "active (fst (update_vision_state i a r vs w)) = (case a of None \<Rightarrow> active vs | Some x \<Rightarrow> x)"
  "result (fst (update_vision_state i a r vs w)) = (case r of None \<Rightarrow> result vs | Some x \<Rightarrow> Some x)"
  "intent (fst (update_vision_state i a r vs w)) = (case i of None \<Rightarrow> intent vs | Some x \<Rightarrow> Some x)"
  by (simp_all add: update_vision_state_def time_time_def Let_def)

lemma update_vision_state_captures:
  "captures (snd (update_vision_state i a r vs w)) = captures w"
  by (simp add: update_vision_state_def time_time_def Let_def)

lemma update_vision_state_extends:
  "prefix xs (trace w) \<Longrightarrow> prefix xs (trace (snd (update_vision_state i a r vs w)))"
  by (auto simp add: update_vision_state_trace prefix_def)

lemma capture_frame_extends:
  "prefix xs (trace w) \<Longrightarrow> prefix xs (trace (snd (capture_frame w)))"
  by (auto simp add: capture_frame_def Let_def prefix_def split: capture.splits)

lemma capture_frame_fails:
  "camera_fails (captures w 0) \<longleftrightarrow> (case fst (capture_frame w) of None \<Rightarrow> [] | Some b \<Rightarrow> b) = []"
  by (simp add: camera_fails_def capture_frame_def Let_def split: capture.splits)

lemma health_check_extends_to:
  "health_check force c w = (ok, c1, w1) \<Longrightarrow> prefix xs (trace w) \<Longrightarrow> prefix xs (trace w1)"
  using health_check_extends [of xs w force c] by simp

lemma vision_completion_extends_to:
  "vision_completion prompt image_base64 model temperature c w = (r, c1, w1) \<Longrightarrow>
   prefix xs (trace w) \<Longrightarrow> prefix xs (trace w1)"
  using vision_completion_extends [of xs w prompt image_base64 model temperature c] by simp

lemma update_vision_state_extends_to:
  "update_vision_state i a r vs w = (vs1, w1) \<Longrightarrow> prefix xs (trace w) \<Longrightarrow> prefix xs (trace w1)"
  using update_vision_state_extends [of xs w i a r vs] by simp

lemma capture_frame_extends_to:
  "capture_frame w = (frame, w1) \<Longrightarrow> prefix xs (trace w) \<Longrightarrow> prefix xs (trace w1)"
  using capture_frame_extends [of xs w] by simp

lemma save_image_extends:
  "prefix xs (trace w) \<Longrightarrow> prefix xs (trace (w\<lparr>trace := trace w @ [e]\<rparr>))"
  by (auto simp add: prefix_def)

lemma handle_vision_intent_first:
  "prefix (trace w @ [Publish (Some vintent) True (result vs)])
     (trace (snd (snd (snd (handle_vision_intent str_e vintent prompt save_image c vs w)))))"
proof -
  let ?P = "trace w @ [Publish (Some vintent) True (result vs)]"
  let ?H = "handle_vision_intent str_e vintent prompt save_image c vs w"
  obtain vs1 w1 where u: "update_vision_state (Some vintent) (Some True) None vs w = (vs1, w1)"
    by (cases "update_vision_state (Some vintent) (Some True) None vs w")
  have p1: "prefix ?P (trace w1)"
    using update_vision_state_trace [of "Some vintent" "Some True" None vs w] u by simp
  obtain frame w2 where cf: "capture_frame w1 = (frame, w2)" by (cases "capture_frame w1")
  have p2: "prefix ?P (trace w2)" by (rule capture_frame_extends_to [OF cf p1])
  show ?thesis
  proof (cases "case frame of None \<Rightarrow> [] | Some b \<Rightarrow> b")
    case Nil
    obtain vs2 w3 where u2: "update_vision_state None (Some False)
        (Some (PyStr ''Camera capture failed'')) vs1 w2 = (vs2, w3)"
      by (cases "update_vision_state None (Some False) (Some (PyStr ''Camera capture failed'')) vs1 w2")
    have "snd (snd (snd ?H)) = w3"
      by (simp add: handle_vision_intent_def u cf Nil u2)
    with update_vision_state_extends_to [OF u2 p2] show ?thesis by simp
  next
    case (Cons ch rest)
    let ?w3 = "if save_image then w2\<lparr>trace := trace w2 @ [SaveImage (ch # rest)]\<rparr> else w2"
    have p3: "prefix ?P (trace ?w3)" using p2 by (simp add: save_image_extends)
    show ?thesis
    proof (cases "get_vision_prompt vintent prompt")
      case (Inl e)
      have "snd (snd (snd ?H)) = ?w3"
        by (simp add: handle_vision_intent_def u cf Cons Inl Let_def)
      with p3 show ?thesis by simp
    next
      case (Inr vision_prompt)
      show ?thesis
      proof (cases "sliceable vision_prompt")
        case False
        have "snd (snd (snd ?H)) = ?w3"
          using False by (simp add: handle_vision_intent_def u cf Cons Inr Let_def)
        with p3 show ?thesis by simp
      next
        case True
        obtain ok c1 w4 where h: "health_check False c ?w3 = (ok, c1, w4)"
          by (cases "health_check False c ?w3")
        have p4: "prefix ?P (trace w4)" by (rule health_check_extends_to [OF h p3])
        show ?thesis
        proof (cases ok)
          case False
          obtain vs2 w5 where u2: "update_vision_state None (Some False)
              (Some (PyStr ''LM Studio not connected'')) vs1 w4 = (vs2, w5)"
            by (cases "update_vision_state None (Some False)
              (Some (PyStr ''LM Studio not connected'')) vs1 w4")
          have "snd (snd (snd ?H)) = w5"
            using False True h u2
            by (simp add: handle_vision_intent_def u cf Cons Inr Let_def)
          with update_vision_state_extends_to [OF u2 p4] show ?thesis by simp
        next
          case healthy: True
          obtain rt c2 w5 where v: "vision_completion vision_prompt (ch # rest) None (2 / 10) c1 w4
              = (rt, c2, w5)"
            by (cases "vision_completion vision_prompt (ch # rest) None (2 / 10) c1 w4")
          have p5: "prefix ?P (trace w5)" by (rule vision_completion_extends_to [OF v p4])
          have "\<exists>r. snd (snd (snd ?H)) = snd (update_vision_state None (Some False) (Some r) vs1 w5)"
            using healthy True h v
            by (auto simp add: handle_vision_intent_def u cf Cons Inr Let_def split: prod.splits)
          then obtain r where "snd (snd (snd ?H))
              = snd (update_vision_state None (Some False) (Some r) vs1 w5)" by blast
          with update_vision_state_extends [OF p5, of None "Some False" "Some r" vs1]
          show ?thesis by simp
        qed
      qed
    qed
  qed
qed

lemma update_vision_state_final:
  "update_vision_state None (Some False) (Some r) vs1 w = (vs2, w') \<Longrightarrow>
   active vs2 = False \<and> intent vs2 = intent vs1 \<and> result vs2 = Some r"
  using update_vision_state_fields [of None "Some False" "Some r" vs1 w] by simp

lemma handle_vision_intent_returns:
  "fst (handle_vision_intent str_e vintent prompt save_image c vs w) = Inr reply \<Longrightarrow>
   returned_properly str_e vintent reply
     (fst (snd (snd (handle_vision_intent str_e vintent prompt save_image c vs w))))"
proof -
  let ?H = "handle_vision_intent str_e vintent prompt save_image c vs w"
  assume ret: "fst ?H = Inr reply"
  obtain vs1 w1 where u: "update_vision_state (Some vintent) (Some True) None vs w = (vs1, w1)"
    by (cases "update_vision_state (Some vintent) (Some True) None vs w")
  have i1: "intent vs1 = Some vintent"
    using update_vision_state_fields(3) [of "Some vintent" "Some True" None vs w] u by simp
  obtain frame w2 where cf: "capture_frame w1 = (frame, w2)" by (cases "capture_frame w1")
  show ?thesis
  proof (cases "case frame of None \<Rightarrow> [] | Some b \<Rightarrow> b")
    case Nil
    obtain vs2 w3 where u2: "update_vision_state None (Some False)
        (Some (PyStr ''Camera capture failed'')) vs1 w2 = (vs2, w3)"
      by (cases "update_vision_state None (Some False) (Some (PyStr ''Camera capture failed'')) vs1 w2")
    have "?H = (Inr (PyDict [(''error'', PyStr ''camera_failed''),
                           (''message'', PyStr ''Unable to access camera'')]), c, vs2, w3)"
      by (simp add: handle_vision_intent_def u cf Nil u2)
    with ret update_vision_state_final [OF u2] i1 show ?thesis
      by (simp add: returned_properly_def)
  next
    case (Cons ch rest)
    let ?w3 = "if save_image then w2\<lparr>trace := trace w2 @ [SaveImage (ch # rest)]\<rparr> else w2"
    show ?thesis
    proof (cases "get_vision_prompt vintent prompt")
      case (Inl e)
      have "fst ?H = Inl e"
        by (simp add: handle_vision_intent_def u cf Cons Inl Let_def)
      with ret show ?thesis by simp
    next
      case (Inr vision_prompt)
      show ?thesis
      proof (cases "sliceable vision_prompt")
        case False
        have "fst ?H = Inl TypeError"
          using False by (simp add: handle_vision_intent_def u cf Cons Inr Let_def)
        with ret show ?thesis by simp
      next
        case True
        obtain ok c1 w4 where h: "health_check False c ?w3 = (ok, c1, w4)"
          by (cases "health_check False c ?w3")
        show ?thesis
        proof (cases ok)
          case False
          obtain vs2 w5 where u2: "update_vision_state None (Some False)
              (Some (PyStr ''LM Studio not connected'')) vs1 w4 = (vs2, w5)"
            by (cases "update_vision_state None (Some False)
              (Some (PyStr ''LM Studio not connected'')) vs1 w4")
          have "?H = (Inr (PyDict [(''error'', PyStr ''lm_studio_disconnected''),
                                       (''message'', PyStr ''LM Studio not connected'')]),
                          c1, vs2, w5)"
            using False True h u2
            by (simp add: handle_vision_intent_def u cf Cons Inr Let_def)
          with ret update_vision_state_final [OF u2] i1 show ?thesis
            by (simp add: returned_properly_def)
        next
          case healthy: True
          obtain rt c2 w5 where v: "vision_completion vision_prompt (ch # rest) None (2 / 10) c1 w4
              = (rt, c2, w5)"
            by (cases "vision_completion vision_prompt (ch # rest) None (2 / 10) c1 w4")
          show ?thesis
          proof (cases "truthy rt")
            case False
            obtain vs2 w6 where u2: "update_vision_state None (Some False)
                (Some (PyStr ''Vision model returned no response'')) vs1 w5 = (vs2, w6)"
              by (cases "update_vision_state None (Some False)
                (Some (PyStr ''Vision model returned no response'')) vs1 w5")
            have "?H = (Inr (PyDict [(''error'', PyStr ''no_response''),
                                     (''message'', PyStr ''Vision model returned no response'')]),
                        c2, vs2, w6)"
              using False healthy True h v u2
              by (simp add: handle_vision_intent_def u cf Cons Inr Let_def)
            with ret update_vision_state_final [OF u2] i1 show ?thesis
              by (simp add: returned_properly_def)
          next
            case answered: True
            show ?thesis
            proof (cases "sliceable rt")
              case False
              obtain vs2 w6 where u2: "update_vision_state None (Some False)
                  (Some (PyStr (str_e TypeError))) vs1 w5 = (vs2, w6)"
                by (cases "update_vision_state None (Some False)
                  (Some (PyStr (str_e TypeError))) vs1 w5")
              have "?H = (Inr (PyDict [(''error'', PyStr ''vision_failed''),
                                       (''message'', PyStr (str_e TypeError))]),
                          c2, vs2, w6)"
                using False answered healthy True h v u2
                by (simp add: handle_vision_intent_def u cf Cons Inr Let_def)
              with ret update_vision_state_final [OF u2] i1 show ?thesis
                by (simp add: returned_properly_def)
            next
              case sliced: True
              obtain vs2 w6 where u2: "update_vision_state None (Some False) (Some rt) vs1 w5
                  = (vs2, w6)"
                by (cases "update_vision_state None (Some False) (Some rt) vs1 w5")
              have "?H = (Inr (PyDict [(''intent'', PyStr vintent), (''result'', rt),
                                       (''success'', PyBool True)]), c2, vs2, w6)"
                using sliced answered healthy True h v u2
                by (simp add: handle_vision_intent_def u cf Cons Inr Let_def)
              with ret update_vision_state_final [OF u2] i1 answered show ?thesis
                by (auto simp add: returned_properly_def)
            qed
          qed
        qed
      qed
    qed
  qed
qed

lemma get_vision_prompt_text:
  "\<exists>vp. get_vision_prompt vintent (PyStr s) = Inr (PyStr vp)"
  by (simp add: get_vision_prompt_def)

lemma handle_vision_intent_text_returns:
  "\<exists>reply. fst (handle_vision_intent str_e vintent (PyStr s) save_image c vs w) = Inr reply"
proof -
  obtain vp where "get_vision_prompt vintent (PyStr s) = Inr (PyStr vp)"
    using get_vision_prompt_text by blast
  then show ?thesis
    by (simp add: handle_vision_intent_def Let_def split: prod.splits list.splits)
qed

lemma handle_vision_intent_camera_fails:
  assumes "camera_fails (captures w 0)"
  shows "fst (handle_vision_intent str_e vintent prompt save_image c vs w)
      = Inr (PyDict [(''error'', PyStr ''camera_failed''),
                     (''message'', PyStr ''Unable to access camera'')])"
proof -
  obtain vs1 w1 where u: "update_vision_state (Some vintent) (Some True) None vs w = (vs1, w1)"
    by (cases "update_vision_state (Some vintent) (Some True) None vs w")
  have "captures w1 = captures w"
    using update_vision_state_captures [of "Some vintent" "Some True" None vs w] u by simp
  with assms have "camera_fails (captures w1 0)" by simp
  then have n: "(case fst (capture_frame w1) of None \<Rightarrow> [] | Some b \<Rightarrow> b) = []"
    by (simp add: capture_frame_fails)
  obtain frame w2 where cf: "capture_frame w1 = (frame, w2)" by (cases "capture_frame w1")
  with n have nil: "(case frame of None \<Rightarrow> [] | Some b \<Rightarrow> b) = []" by simp
  show ?thesis
    by (simp add: handle_vision_intent_def u cf nil split: prod.splits)
qed

text \<open>
  Claim C6. The first thing every execution of \<^verbatim>\<open>handle_vision_intent\<close> does is to
  publish VisionState with the intent and \<^verbatim>\<open>active=True\<close>. Every execution that returns
  ends with VisionState inactive and its result populated: the answer text on success,
  an error string after a camera failure, an unhealthy backend, an empty answer of the
  model or an exception. In particular, when the camera gives no frame, the reply is the
  camera-failure error and VisionState ends inactive with the result
  \<^verbatim>\<open>Camera capture failed\<close>. A call whose prompt is a string, as the signature
  declares, always returns.
\<close>

theorem vision_state_lifecycle:
  "(\<exists>rest. new_events w (snd (snd (snd (handle_vision_intent str_e vintent prompt save_image c vs w))))
       = Publish (Some vintent) True (result vs) # rest)
   \<and> (\<forall>reply. fst (handle_vision_intent str_e vintent prompt save_image c vs w) = Inr reply \<longrightarrow>
         returned_properly str_e vintent reply
           (fst (snd (snd (handle_vision_intent str_e vintent prompt save_image c vs w)))))
   \<and> (camera_fails (captures w 0) \<longrightarrow>
         fst (handle_vision_intent str_e vintent prompt save_image c vs w)
           = Inr (PyDict [(''error'', PyStr ''camera_failed''),
                          (''message'', PyStr ''Unable to access camera'')])
         \<and> active (fst (snd (snd (handle_vision_intent str_e vintent prompt save_image c vs w))))
             = False
         \<and> result (fst (snd (snd (handle_vision_intent str_e vintent prompt save_image c vs w))))
             = Some (PyStr ''Camera capture failed''))
   \<and> (\<exists>reply. fst (handle_vision_intent str_e vintent (PyStr s) save_image c vs w) = Inr reply)"
proof (intro conjI allI impI)
  from handle_vision_intent_first [of w vintent vs str_e prompt save_image c]
  show "\<exists>rest. new_events w (snd (snd (snd (handle_vision_intent str_e vintent prompt save_image c vs w))))
       = Publish (Some vintent) True (result vs) # rest"
    by (auto simp add: prefix_def new_events_def)
next
  fix reply
  assume "fst (handle_vision_intent str_e vintent prompt save_image c vs w) = Inr reply"
  then show "returned_properly str_e vintent reply
     (fst (snd (snd (handle_vision_intent str_e vintent prompt save_image c vs w))))"
    by (rule handle_vision_intent_returns)
next
  assume f: "camera_fails (captures w 0)"
  show r: "fst (handle_vision_intent str_e vintent prompt save_image c vs w)
       = Inr (PyDict [(''error'', PyStr ''camera_failed''),
                      (''message'', PyStr ''Unable to access camera'')])"
    by (rule handle_vision_intent_camera_fails [OF f])
  from handle_vision_intent_returns [OF r]
  show "active (fst (snd (snd (handle_vision_intent str_e vintent prompt save_image c vs w))))
             = False"
    and "result (fst (snd (snd (handle_vision_intent str_e vintent prompt save_image c vs w))))
             = Some (PyStr ''Camera capture failed'')"
    by (simp_all add: returned_properly_def)
next
  show "\<exists>reply. fst (handle_vision_intent str_e vintent (PyStr s) save_image c vs w) = Inr reply"
    by (rule handle_vision_intent_text_returns)
qed

theorem vision_state_lifecycle_witness:
  "camera_fails (captures (example_world 1000 models_reply ConnectionError ReadFails) 0)
   \<and> fst (handle_vision_intent exc_name ''see'' (PyStr ''What do you see?'') False example_client
            idle_vision (example_world 1000 models_reply ConnectionError ReadFails))
       = Inr (PyDict [(''error'', PyStr ''camera_failed''),
                      (''message'', PyStr ''Unable to access camera'')])
   \<and> returned_properly exc_name ''see''
        (PyDict [(''error'', PyStr ''camera_failed''), (''message'', PyStr ''Unable to access camera'')])
        (fst (snd (snd (handle_vision_intent exc_name ''see'' (PyStr ''What do you see?'') False
            example_client idle_vision (example_world 1000 models_reply ConnectionError ReadFails)))))
   \<and> result (fst (snd (snd (handle_vision_intent exc_name ''see'' (PyStr ''What do you see?'') False
            example_client idle_vision (example_world 1000 models_reply ConnectionError ReadFails)))))
       = Some (PyStr ''Camera capture failed'')"
proof -
  let ?w = "example_world 1000 models_reply ConnectionError ReadFails"
  have f: "camera_fails (captures ?w 0)"
    by (simp add: camera_fails_def example_world_def)
  from vision_state_lifecycle
    [of ?w exc_name "''see''" "PyStr ''What do you see?''" False example_client idle_vision
        "''What do you see?''"] f
  show ?thesis by simp
qed

end
